theory Spec2Isabelle
  imports Complex_Main "HOL-Library.Sublist"
begin

section \<open>Values\<close>

text \<open>
  The service stores and returns JSON values. A JSON object is a map from property
  names to values: the code only reads and sets properties by name, so the order of
  the members is not part of the model. Numbers are exact rationals; the rounding of
  IEEE doubles is not modelled, so the arithmetic below agrees with the JavaScript
  for every number a double holds exactly, in particular for integers of magnitude
  below \<open>2 ^ 53\<close>. A character stands for one code unit of a JavaScript string, in
  the range \<open>0..255\<close>.
\<close>

datatype json =
    JNull
  | JBool bool
  | JNum rat
  | JStr string
  | JArr "json list"
  | JObj "string \<Rightarrow> json option"

text \<open>
  A JavaScript number while it is computed: \<open>Math.max\<close> and \<open>parseInt\<close> can
  yield \<open>NaN\<close>, a coercion can yield an infinity. \<open>JSON.stringify\<close> writes all
  three as \<open>null\<close>, which is what a saved catalog and a response body hold.
\<close>

datatype jsnum = NaN | NegInf | Num rat | PosInf

definition num_to_json :: "jsnum \<Rightarrow> json" where
  "num_to_json n = (case n of Num r \<Rightarrow> JNum r | _ \<Rightarrow> JNull)"

datatype error =
    TypeError
  | SyntaxError
  | SystemError string

text \<open>
  What the repository calls and does not define: the directory of the script
  (\<open>__dirname\<close>), \<open>path.join\<close>, \<open>path.extname\<close>, and the language's \<open>ToNumber\<close> on
  strings, arrays and objects (\<open>None\<close> where it throws a \<open>TypeError\<close>). They are
  parameters of the model; every theorem holds for each choice of them.
\<close>

record runtime =
  dirname :: string
  path_join :: "string \<Rightarrow> string \<Rightarrow> string"
  path_extname :: "string \<Rightarrow> string"
  coerce :: "json \<Rightarrow> jsnum option"

subsection \<open>Operators of the language\<close>

definition truthy :: "json \<Rightarrow> bool" where
  "truthy v =
     (case v of
        JNull \<Rightarrow> False
      | JBool b \<Rightarrow> b
      | JNum r \<Rightarrow> r \<noteq> 0
      | JStr s \<Rightarrow> s \<noteq> []
      | JArr xs \<Rightarrow> True
      | JObj m \<Rightarrow> True)"

definition ToNumber :: "runtime \<Rightarrow> json \<Rightarrow> error + jsnum" where
  "ToNumber rt v =
     (case v of
        JNull \<Rightarrow> Inr (Num 0)
      | JBool b \<Rightarrow> Inr (Num (if b then 1 else 0))
      | JNum r \<Rightarrow> Inr (Num r)
      | _ \<Rightarrow> (case coerce rt v of None \<Rightarrow> Inl TypeError | Some n \<Rightarrow> Inr n))"

text \<open>
  \<open>p.name\<close> for the names the service reads (\<open>id\<close>, \<open>image\<close>, \<open>audioFile\<close>), which
  only an object can have: reading a property of \<open>null\<close> throws, any other value
  that is not an object yields \<open>undefined\<close> (\<open>None\<close>).
\<close>

definition member :: "json \<Rightarrow> string \<Rightarrow> error + json option" where
  "member p name =
     (case p of
        JNull \<Rightarrow> Inl TypeError
      | JObj m \<Rightarrow> Inr (m name)
      | _ \<Rightarrow> Inr None)"

text \<open>\<open>v === n\<close> for a property value \<open>v\<close> and a number \<open>n\<close>.\<close>

definition strict_eq :: "json option \<Rightarrow> jsnum \<Rightarrow> bool" where
  "strict_eq v n =
     (case v of
        Some (JNum r) \<Rightarrow> (case n of Num q \<Rightarrow> r = q | _ \<Rightarrow> False)
      | _ \<Rightarrow> False)"

fun js_max :: "jsnum \<Rightarrow> jsnum \<Rightarrow> jsnum" where
  "js_max NaN y = NaN"
| "js_max x NaN = NaN"
| "js_max PosInf y = PosInf"
| "js_max x PosInf = PosInf"
| "js_max NegInf y = y"
| "js_max x NegInf = x"
| "js_max (Num a) (Num b) = Num (max a b)"

definition js_add1 :: "jsnum \<Rightarrow> jsnum" where
  "js_add1 n = (case n of Num r \<Rightarrow> Num (r + 1) | _ \<Rightarrow> n)"

text \<open>
  \<open>Math.max(...vs)\<close>: every argument is coerced, in order; no argument gives
  \<open>-Infinity\<close>. The limit an engine sets to the number of arguments of a call is
  not modelled.
\<close>

fun Math_max :: "runtime \<Rightarrow> json list \<Rightarrow> error + jsnum" where
  "Math_max rt [] = Inr NegInf"
| "Math_max rt (v # vs) =
     (case ToNumber rt v of
        Inl e \<Rightarrow> Inl e
      | Inr n \<Rightarrow> (case Math_max rt vs of Inl e \<Rightarrow> Inl e | Inr m \<Rightarrow> Inr (js_max n m)))"

subsection \<open>Decimal strings and \<open>parseInt\<close>\<close>

definition digit_char :: "nat \<Rightarrow> char" where
  "digit_char k = ''0123456789'' ! k"

fun show_nat :: "nat \<Rightarrow> string" where
  "show_nat n =
     (if n < 10 then [digit_char n]
      else show_nat (n div 10) @ [digit_char (n mod 10)])"

declare show_nat.simps [simp del]


definition is_ws :: "char \<Rightarrow> bool" where
  "is_ws c = (c \<in> set [CHR 0x09, CHR 0x0A, CHR 0x0B, CHR 0x0C, CHR 0x0D, CHR 0x20, CHR 0xA0])"

definition digit_of :: "char \<Rightarrow> nat option" where
  "digit_of c =
     (let k = (of_char c :: nat) in
      if 48 \<le> k \<and> k \<le> 57 then Some (k - 48)
      else if 97 \<le> k \<and> k \<le> 122 then Some (k - 87)
      else if 65 \<le> k \<and> k \<le> 90 then Some (k - 55)
      else None)"

definition is_digit :: "nat \<Rightarrow> char \<Rightarrow> bool" where
  "is_digit R c = (case digit_of c of None \<Rightarrow> False | Some d \<Rightarrow> d < R)"

definition digits_value :: "nat \<Rightarrow> string \<Rightarrow> nat" where
  "digits_value R Z =
     foldl (\<lambda>a c. a * R + (case digit_of c of None \<Rightarrow> 0 | Some d \<Rightarrow> d)) 0 Z"

text \<open>
  \<open>parseInt(s)\<close> with no radix: leading white space is dropped, then a sign, then
  \<open>0x\<close> or \<open>0X\<close> selects radix 16; the longest run of digits is read and the rest of
  the string is ignored; no digit gives \<open>NaN\<close>.
\<close>

definition parseInt :: "string \<Rightarrow> jsnum" where
  "parseInt s =
     (let S = dropWhile is_ws s;
          sign = (if take 1 S = ''-'' then - 1 else (1 :: int));
          S1 = (if take 1 S = ''-'' \<or> take 1 S = ''+'' then drop 1 S else S);
          hex = (take 2 S1 = ''0x'' \<or> take 2 S1 = ''0X'');
          R = (if hex then 16 else 10);
          S2 = (if hex then drop 2 S1 else S1);
          Z = takeWhile (is_digit R) S2
      in if Z = [] then NaN else Num (of_int (sign * int (digits_value R Z))))"

section \<open>The file system and the console\<close>

text \<open>
  A file holds text: \<open>Text v\<close> is text that \<open>JSON.parse\<close> reads as \<open>v\<close>, \<open>Garbled\<close> any
  other content. A path is absent, a file, or \<open>Denied\<close>: something every
  operation on it fails on (a directory in its place, missing rights). The console
  holds what the service printed with \<open>console.error\<close>.
\<close>

datatype content = Garbled | Text json

datatype node = File content | Denied

record world =
  files :: "string \<Rightarrow> node option"
  console :: "(string \<times> error) list"

definition console_error :: "world \<Rightarrow> string \<Rightarrow> error \<Rightarrow> world" where
  "console_error w label e = w\<lparr>console := console w @ [(label, e)]\<rparr>"

definition readFile :: "world \<Rightarrow> string \<Rightarrow> error + content" where
  "readFile w path =
     (case files w path of
        None \<Rightarrow> Inl (SystemError ''ENOENT'')
      | Some Denied \<Rightarrow> Inl (SystemError ''EACCES'')
      | Some (File c) \<Rightarrow> Inr c)"

definition writeFile :: "world \<Rightarrow> string \<Rightarrow> content \<Rightarrow> error + world" where
  "writeFile w path c =
     (case files w path of
        Some Denied \<Rightarrow> Inl (SystemError ''EACCES'')
      | _ \<Rightarrow> Inr (w\<lparr>files := (files w)(path \<mapsto> File c)\<rparr>))"

definition unlink :: "world \<Rightarrow> string \<Rightarrow> error + world" where
  "unlink w path =
     (case files w path of
        None \<Rightarrow> Inl (SystemError ''ENOENT'')
      | Some Denied \<Rightarrow> Inl (SystemError ''EPERM'')
      | Some (File c) \<Rightarrow> Inr (w\<lparr>files := (files w)(path := None)\<rparr>))"

definition JSON_parse :: "content \<Rightarrow> error + json" where
  "JSON_parse c = (case c of Garbled \<Rightarrow> Inl SyntaxError | Text v \<Rightarrow> Inr v)"

section \<open>The file store\<close>

definition dataDir :: "runtime \<Rightarrow> string" where
  "dataDir rt = path_join rt (dirname rt) ''data''"

definition getProductsFilePath :: "runtime \<Rightarrow> string \<Rightarrow> string" where
  "getProductsFilePath rt category =
     path_join rt (dataDir rt) (''products_'' @ category @ ''.json'')"

definition loadProducts :: "runtime \<Rightarrow> world \<Rightarrow> string \<Rightarrow> error + json" where
  "loadProducts rt w category =
     (case (case readFile w (getProductsFilePath rt category) of
              Inl e \<Rightarrow> Inl e
            | Inr data \<Rightarrow> JSON_parse data) of
        Inl e \<Rightarrow> (if e = SystemError ''ENOENT'' then Inr (JArr []) else Inl e)
      | Inr v \<Rightarrow> Inr v)"

definition saveProducts :: "runtime \<Rightarrow> world \<Rightarrow> string \<Rightarrow> json list \<Rightarrow> error + world" where
  "saveProducts rt w category products =
     writeFile w (getProductsFilePath rt category) (Text (JArr products))"

section \<open>The product service\<close>

datatype response = Resp nat json | Error_page nat

definition status_of :: "response \<Rightarrow> nat" where
  "status_of r = (case r of Resp s b \<Rightarrow> s | Error_page s \<Rightarrow> s)"

definition body_of :: "response \<Rightarrow> json" where
  "body_of r = (case r of Resp s b \<Rightarrow> b | Error_page s \<Rightarrow> JNull)"

definition error_body :: "string \<Rightarrow> json" where
  "error_body msg = JObj [''error'' \<mapsto> JStr msg]"

text \<open>
  The handlers call \<open>find\<close>, \<open>findIndex\<close>, \<open>map\<close> and \<open>push\<close> on what was loaded.
  Only an array has them: on any other JSON value the call throws a \<open>TypeError\<close>
  before anything is saved.
\<close>

definition as_array :: "json \<Rightarrow> error + json list" where
  "as_array v = (case v of JArr xs \<Rightarrow> Inr xs | _ \<Rightarrow> Inl TypeError)"

text \<open>\<open>products.find(p => p.id === n)\<close>; \<open>None\<close> is \<open>undefined\<close>.\<close>

fun find_by_id :: "json list \<Rightarrow> jsnum \<Rightarrow> error + json option" where
  "find_by_id [] n = Inr None"
| "find_by_id (p # ps) n =
     (case member p ''id'' of
        Inl e \<Rightarrow> Inl e
      | Inr v \<Rightarrow> if strict_eq v n then Inr (Some p) else find_by_id ps n)"

text \<open>\<open>products.findIndex(p => p.id === n)\<close>; \<open>None\<close> is \<open>-1\<close>.\<close>

fun findIndex_by_id :: "json list \<Rightarrow> jsnum \<Rightarrow> error + nat option" where
  "findIndex_by_id [] n = Inr None"
| "findIndex_by_id (p # ps) n =
     (case member p ''id'' of
        Inl e \<Rightarrow> Inl e
      | Inr v \<Rightarrow>
          if strict_eq v n then Inr (Some 0)
          else (case findIndex_by_id ps n of
                  Inl e \<Rightarrow> Inl e
                | Inr None \<Rightarrow> Inr None
                | Inr (Some i) \<Rightarrow> Inr (Some (Suc i))))"

text \<open>
  The own properties an object spread \<open>...v\<close> copies: the members of an object, the
  elements of an array and the characters of a string under their indices, nothing
  of any other value.
\<close>

definition indexed :: "json list \<Rightarrow> string \<Rightarrow> json option" where
  "indexed xs = map_of (zip (map show_nat [0..<length xs]) xs)"

definition own_props :: "json \<Rightarrow> string \<Rightarrow> json option" where
  "own_props v =
     (case v of
        JObj m \<Rightarrow> m
      | JArr xs \<Rightarrow> indexed xs
      | JStr s \<Rightarrow> indexed (map (\<lambda>c. JStr [c]) s)
      | _ \<Rightarrow> Map.empty)"

subsection \<open>List and get\<close>

definition get_products :: "runtime \<Rightarrow> world \<Rightarrow> string \<Rightarrow> response \<times> world" where
  "get_products rt w category =
     (case loadProducts rt w category of
        Inl e \<Rightarrow>
          (Resp 500 (error_body ''Failed to load products''),
           console_error w ''Error loading products:'' e)
      | Inr products \<Rightarrow> (Resp 200 products, w))"

definition find_product :: "runtime \<Rightarrow> world \<Rightarrow> string \<Rightarrow> string \<Rightarrow> error + json option" where
  "find_product rt w category ident =
     (case loadProducts rt w category of
        Inl e \<Rightarrow> Inl e
      | Inr v \<Rightarrow>
          (case as_array v of
             Inl e \<Rightarrow> Inl e
           | Inr products \<Rightarrow> find_by_id products (parseInt ident)))"

definition get_product :: "runtime \<Rightarrow> world \<Rightarrow> string \<Rightarrow> string \<Rightarrow> response \<times> world" where
  "get_product rt w category ident =
     (case find_product rt w category ident of
        Inl e \<Rightarrow>
          (Resp 500 (error_body ''Failed to load product''),
           console_error w ''Error loading product:'' e)
      | Inr None \<Rightarrow> (Resp 404 (error_body ''Product not found''), w)
      | Inr (Some product) \<Rightarrow>
          if truthy product then (Resp 200 product, w)
          else (Resp 404 (error_body ''Product not found''), w))"

subsection \<open>Create\<close>

text \<open>\<open>p.id || 0\<close>\<close>

definition id_or_0 :: "json \<Rightarrow> error + json" where
  "id_or_0 p =
     (case member p ''id'' of
        Inl e \<Rightarrow> Inl e
      | Inr None \<Rightarrow> Inr (JNum 0)
      | Inr (Some v) \<Rightarrow> Inr (if truthy v then v else JNum 0))"

text \<open>\<open>products.map(p => p.id || 0)\<close>\<close>

fun map_ids :: "json list \<Rightarrow> error + json list" where
  "map_ids [] = Inr []"
| "map_ids (p # ps) =
     (case id_or_0 p of
        Inl e \<Rightarrow> Inl e
      | Inr v \<Rightarrow> (case map_ids ps of Inl e \<Rightarrow> Inl e | Inr vs \<Rightarrow> Inr (v # vs)))"

definition newId :: "runtime \<Rightarrow> json list \<Rightarrow> error + jsnum" where
  "newId rt products =
     (if length products > 0
      then (case map_ids products of
              Inl e \<Rightarrow> Inl e
            | Inr vs \<Rightarrow> (case Math_max rt vs of Inl e \<Rightarrow> Inl e | Inr m \<Rightarrow> Inr (js_add1 m)))
      else Inr (Num 1))"

text \<open>
  The object literal of the handler, in its order: \<open>id\<close>, then the spread of the
  request body, then the two time stamps (two readings of the clock).
\<close>

definition new_product :: "jsnum \<Rightarrow> json \<Rightarrow> string \<Rightarrow> string \<Rightarrow> json" where
  "new_product n body t1 t2 =
     JObj (([''id'' \<mapsto> num_to_json n] ++ own_props body)
           (''createdAt'' \<mapsto> JStr t1, ''updatedAt'' \<mapsto> JStr t2))"

definition create :: "runtime \<Rightarrow> world \<Rightarrow> string \<Rightarrow> json \<Rightarrow> string \<Rightarrow> string \<Rightarrow> error + json \<times> world" where
  "create rt w category body t1 t2 =
     (case loadProducts rt w category of
        Inl e \<Rightarrow> Inl e
      | Inr v \<Rightarrow>
          (case as_array v of
             Inl e \<Rightarrow> Inl e
           | Inr products \<Rightarrow>
               (case newId rt products of
                  Inl e \<Rightarrow> Inl e
                | Inr n \<Rightarrow>
                    (let product = new_product n body t1 t2 in
                     case saveProducts rt w category (products @ [product]) of
                       Inl e \<Rightarrow> Inl e
                     | Inr w' \<Rightarrow> Inr (product, w')))))"

definition post_product :: "runtime \<Rightarrow> world \<Rightarrow> string \<Rightarrow> json \<Rightarrow> string \<Rightarrow> string \<Rightarrow> response \<times> world" where
  "post_product rt w category body t1 t2 =
     (case create rt w category body t1 t2 of
        Inl e \<Rightarrow>
          (Resp 500 (error_body ''Failed to create product''),
           console_error w ''Error creating product:'' e)
      | Inr (product, w') \<Rightarrow> (Resp 201 product, w'))"

subsection \<open>Update\<close>

definition updated_product :: "json \<Rightarrow> json \<Rightarrow> jsnum \<Rightarrow> string \<Rightarrow> json" where
  "updated_product old body n t =
     JObj ((own_props old ++ own_props body)
           (''id'' \<mapsto> num_to_json n, ''updatedAt'' \<mapsto> JStr t))"

definition update :: "runtime \<Rightarrow> world \<Rightarrow> string \<Rightarrow> string \<Rightarrow> json \<Rightarrow> string \<Rightarrow> error + (json \<times> world) option" where
  "update rt w category ident body t =
     (case loadProducts rt w category of
        Inl e \<Rightarrow> Inl e
      | Inr v \<Rightarrow>
          (case as_array v of
             Inl e \<Rightarrow> Inl e
           | Inr products \<Rightarrow>
               (case findIndex_by_id products (parseInt ident) of
                  Inl e \<Rightarrow> Inl e
                | Inr None \<Rightarrow> Inr None
                | Inr (Some index) \<Rightarrow>
                    (let products' =
                       products[index := updated_product (products ! index) body (parseInt ident) t]
                     in case saveProducts rt w category products' of
                          Inl e \<Rightarrow> Inl e
                        | Inr w' \<Rightarrow> Inr (Some (products' ! index, w'))))))"

definition put_product :: "runtime \<Rightarrow> world \<Rightarrow> string \<Rightarrow> string \<Rightarrow> json \<Rightarrow> string \<Rightarrow> response \<times> world" where
  "put_product rt w category ident body t =
     (case update rt w category ident body t of
        Inl e \<Rightarrow>
          (Resp 500 (error_body ''Failed to update product''),
           console_error w ''Error updating product:'' e)
      | Inr None \<Rightarrow> (Resp 404 (error_body ''Product not found''), w)
      | Inr (Some (product, w')) \<Rightarrow> (Resp 200 product, w'))"

subsection \<open>Delete\<close>

text \<open>
  \<open>v && v.startsWith('/uploads/')\<close> for a property value \<open>v\<close>: a falsy value stops
  the test, a string is tested, and any other truthy value has no \<open>startsWith\<close>, so
  the call throws. The result is the path to remove, if there is one.
\<close>

definition uploads_ref :: "json option \<Rightarrow> error + string option" where
  "uploads_ref v =
     (case v of
        None \<Rightarrow> Inr None
      | Some (JStr s) \<Rightarrow> Inr (if s \<noteq> [] \<and> prefix ''/uploads/'' s then Some s else None)
      | Some u \<Rightarrow> if truthy u then Inl TypeError else Inr None)"

text \<open>The inner \<open>try\<close>: a failed \<open>unlink\<close> is printed and nothing else happens.\<close>

definition remove_upload :: "runtime \<Rightarrow> world \<Rightarrow> string \<Rightarrow> string \<Rightarrow> world" where
  "remove_upload rt w label ref =
     (case unlink w (path_join rt (dirname rt) ref) of
        Inl err \<Rightarrow> console_error w label err
      | Inr w' \<Rightarrow> w')"

definition remove_if_upload :: "runtime \<Rightarrow> world \<Rightarrow> string \<Rightarrow> json option \<Rightarrow> error \<times> world + world" where
  "remove_if_upload rt w label v =
     (case uploads_ref v of
        Inl e \<Rightarrow> Inl (e, w)
      | Inr None \<Rightarrow> Inr w
      | Inr (Some ref) \<Rightarrow> Inr (remove_upload rt w label ref))"

definition splice1 :: "nat \<Rightarrow> 'a list \<Rightarrow> 'a list" where
  "splice1 index xs = take index xs @ drop (Suc index) xs"

text \<open>
  The body of the handler's \<open>try\<close>. An error carries the world it was thrown in:
  files removed before it stay removed.
\<close>

definition delete :: "runtime \<Rightarrow> world \<Rightarrow> string \<Rightarrow> string \<Rightarrow> error \<times> world + world option" where
  "delete rt w category ident =
     (case loadProducts rt w category of
        Inl e \<Rightarrow> Inl (e, w)
      | Inr v \<Rightarrow>
          (case as_array v of
             Inl e \<Rightarrow> Inl (e, w)
           | Inr products \<Rightarrow>
               (case findIndex_by_id products (parseInt ident) of
                  Inl e \<Rightarrow> Inl (e, w)
                | Inr None \<Rightarrow> Inr None
                | Inr (Some index) \<Rightarrow>
                    (let product = own_props (products ! index) in
                     case remove_if_upload rt w ''Error deleting image file:'' (product ''image'') of
                       Inl ew \<Rightarrow> Inl ew
                     | Inr w1 \<Rightarrow>
                         (case remove_if_upload rt w1 ''Error deleting audio file:''
                                 (product ''audioFile'') of
                            Inl ew \<Rightarrow> Inl ew
                          | Inr w2 \<Rightarrow>
                              (case saveProducts rt w2 category (splice1 index products) of
                                 Inl e \<Rightarrow> Inl (e, w2)
                               | Inr w3 \<Rightarrow> Inr (Some w3)))))))"

definition delete_product :: "runtime \<Rightarrow> world \<Rightarrow> string \<Rightarrow> string \<Rightarrow> response \<times> world" where
  "delete_product rt w category ident =
     (case delete rt w category ident of
        Inl (e, w') \<Rightarrow>
          (Resp 500 (error_body ''Failed to delete product''),
           console_error w' ''Error deleting product:'' e)
      | Inr None \<Rightarrow> (Resp 404 (error_body ''Product not found''), w)
      | Inr (Some w') \<Rightarrow>
          (Resp 200 (JObj [''message'' \<mapsto> JStr ''Product deleted successfully'']), w'))"

section \<open>The upload handlers\<close>

text \<open>
  The two upload routes run a \<open>multer\<close> middleware before their handler, and the
  repository installs no error-handling middleware, so an error the middleware
  passes on reaches the final handler of \<open>express\<close>. Neither library is part of the
  repository; both are modelled here as far as the routes use them:
  \<^item> \<open>single(field)\<close> accepts a file only under that field name, asks the
    \<open>fileFilter\<close> of the source, refuses a file of more than \<open>limits.fileSize\<close>
    bytes, and stores an accepted file under the name the \<open>filename\<close> callback of
    the source gives; each refusal is an error passed on;
  \<^item> the final handler answers with the \<open>status\<close> of the error when that is a
    status from 400 to 599, and with 500 otherwise.
  A request carries at most one file part. \<open>Date.now()\<close> and the rounded random
  number are inputs.
\<close>

record js_error =
  message :: string
  status :: "nat option"

definition new_Error :: "string \<Rightarrow> js_error" where
  "new_Error msg = \<lparr>message = msg, status = None\<rparr>"

definition MulterError :: "string \<Rightarrow> js_error" where
  "MulterError code = \<lparr>message = code, status = None\<rparr>"

definition final_handler_status :: "js_error \<Rightarrow> nat" where
  "final_handler_status e =
     (case status e of
        None \<Rightarrow> 500
      | Some s \<Rightarrow> if 400 \<le> s \<and> s < 600 then s else 500)"

record upload =
  fieldname :: string
  originalname :: string
  mimetype :: string
  filesize :: nat
  filedata :: content

datatype upload_request = No_file | File_part upload

definition uploadsDir :: "runtime \<Rightarrow> string" where
  "uploadsDir rt = path_join rt (dirname rt) ''uploads''"

definition uploadsImagesDir :: "runtime \<Rightarrow> string" where
  "uploadsImagesDir rt = path_join rt (uploadsDir rt) ''images''"

definition uploadsAudioDir :: "runtime \<Rightarrow> string" where
  "uploadsAudioDir rt = path_join rt (uploadsDir rt) ''audio''"

text \<open>The \<open>filename\<close> callback of both storages: \<open>uniqueSuffix + path.extname(file.originalname)\<close>.\<close>

definition storage_filename :: "runtime \<Rightarrow> nat \<Rightarrow> nat \<Rightarrow> upload \<Rightarrow> string" where
  "storage_filename rt now rnd file =
     (let uniqueSuffix = show_nat now @ ''-'' @ show_nat rnd
      in uniqueSuffix @ path_extname rt (originalname file))"

definition image_fileFilter :: "upload \<Rightarrow> js_error + bool" where
  "image_fileFilter file =
     (if prefix ''image/'' (mimetype file) then Inr True
      else Inl (new_Error ''Only image files are allowed!''))"

definition audio_fileFilter :: "upload \<Rightarrow> js_error + bool" where
  "audio_fileFilter file =
     (if prefix ''audio/'' (mimetype file) then Inr True
      else Inl (new_Error ''Only audio files are allowed!''))"

definition multer_single ::
  "runtime \<Rightarrow> world \<Rightarrow> string \<Rightarrow> nat \<Rightarrow> (upload \<Rightarrow> js_error + bool) \<Rightarrow> string \<Rightarrow>
   upload_request \<Rightarrow> nat \<Rightarrow> nat \<Rightarrow> js_error + string option \<times> world" where
  "multer_single rt w destination fileSize fileFilter field req now rnd =
     (case req of
        No_file \<Rightarrow> Inr (None, w)
      | File_part file \<Rightarrow>
          if fieldname file \<noteq> field then Inl (MulterError ''LIMIT_UNEXPECTED_FILE'')
          else
            (case fileFilter file of
               Inl e \<Rightarrow> Inl e
             | Inr keep \<Rightarrow>
                 if \<not> keep then Inr (None, w)
                 else if filesize file > fileSize then Inl (MulterError ''LIMIT_FILE_SIZE'')
                 else
                   (let filename = storage_filename rt now rnd file in
                    case writeFile w (path_join rt destination filename) (filedata file) of
                      Inl e \<Rightarrow> Inl (new_Error ''write failed'')
                    | Inr w' \<Rightarrow> Inr (Some filename, w'))))"

definition imageUpload ::
  "runtime \<Rightarrow> world \<Rightarrow> upload_request \<Rightarrow> nat \<Rightarrow> nat \<Rightarrow> js_error + string option \<times> world" where
  "imageUpload rt w req now rnd =
     multer_single rt w (uploadsImagesDir rt) (10 * 1024 * 1024) image_fileFilter ''image''
       req now rnd"

definition audioUpload ::
  "runtime \<Rightarrow> world \<Rightarrow> upload_request \<Rightarrow> nat \<Rightarrow> nat \<Rightarrow> js_error + string option \<times> world" where
  "audioUpload rt w req now rnd =
     multer_single rt w (uploadsAudioDir rt) (50 * 1024 * 1024) audio_fileFilter ''audio''
       req now rnd"

definition upload_image :: "runtime \<Rightarrow> world \<Rightarrow> upload_request \<Rightarrow> nat \<Rightarrow> nat \<Rightarrow> response \<times> world" where
  "upload_image rt w req now rnd =
     (case imageUpload rt w req now rnd of
        Inl e \<Rightarrow> (Error_page (final_handler_status e), w)
      | Inr (None, w') \<Rightarrow> (Resp 400 (error_body ''No image file provided''), w')
      | Inr (Some filename, w') \<Rightarrow>
          (Resp 200 (JObj [''url'' \<mapsto> JStr (''/uploads/images/'' @ filename),
                           ''filename'' \<mapsto> JStr filename]), w'))"

definition upload_audio :: "runtime \<Rightarrow> world \<Rightarrow> upload_request \<Rightarrow> nat \<Rightarrow> nat \<Rightarrow> response \<times> world" where
  "upload_audio rt w req now rnd =
     (case audioUpload rt w req now rnd of
        Inl e \<Rightarrow> (Error_page (final_handler_status e), w)
      | Inr (None, w') \<Rightarrow> (Resp 400 (error_body ''No audio file provided''), w')
      | Inr (Some filename, w') \<Rightarrow>
          (Resp 200 (JObj [''url'' \<mapsto> JStr (''/uploads/audio/'' @ filename),
                           ''filename'' \<mapsto> JStr filename]), w'))"

section \<open>Catalogs of the data model\<close>

text \<open>
  A product is a record (a JSON object); its \<open>id\<close> is a number, an integer in a
  catalog that only the service wrote. The predicates below say so of a stored
  value; \<open>property\<close> reads a property of a record. An integer id is one of
  magnitude below \<open>2 ^ 53\<close>, where the arithmetic of the language is exact.
\<close>

definition property :: "json \<Rightarrow> string \<Rightarrow> json option" where
  "property p name = (case p of JObj m \<Rightarrow> m name | _ \<Rightarrow> None)"

definition is_record :: "json \<Rightarrow> bool" where
  "is_record p = (case p of JObj m \<Rightarrow> True | _ \<Rightarrow> False)"

definition has_id :: "jsnum \<Rightarrow> json \<Rightarrow> bool" where
  "has_id n p = strict_eq (property p ''id'') n"

definition num_id :: "json \<Rightarrow> bool" where
  "num_id p =
     (is_record p \<and>
      (case property p ''id'' of None \<Rightarrow> True | Some (JNum r) \<Rightarrow> True | Some v \<Rightarrow> False))"


text \<open>The number a record counts as in \<open>p.id || 0\<close>.\<close>

definition id_number :: "json \<Rightarrow> rat" where
  "id_number p = (case property p ''id'' of Some (JNum r) \<Rightarrow> r | _ \<Rightarrow> 0)"

text \<open>
  The world after the two removals of Delete, for the paths \<open>a\<close> and \<open>b\<close> that the
  \<open>image\<close> and the \<open>audioFile\<close> of the deleted record refer to (if they do).
\<close>

definition after_removals :: "runtime \<Rightarrow> world \<Rightarrow> string option \<Rightarrow> string option \<Rightarrow> world" where
  "after_removals rt w a b =
     (let w1 = (case a of
                  None \<Rightarrow> w
                | Some ref \<Rightarrow> remove_upload rt w ''Error deleting image file:'' ref)
      in case b of
           None \<Rightarrow> w1
         | Some ref \<Rightarrow> remove_upload rt w1 ''Error deleting audio file:'' ref)"

section \<open>Sequences of requests\<close>

datatype request =
    List_all
  | Get string
  | Create json string string
  | Update string json string
  | Delete string

definition serve :: "runtime \<Rightarrow> string \<Rightarrow> world \<Rightarrow> request \<Rightarrow> response \<times> world" where
  "serve rt category w req =
     (case req of
        List_all \<Rightarrow> get_products rt w category
      | Get ident \<Rightarrow> get_product rt w category ident
      | Create body t1 t2 \<Rightarrow> post_product rt w category body t1 t2
      | Update ident body t \<Rightarrow> put_product rt w category ident body t
      | Delete ident \<Rightarrow> delete_product rt w category ident)"

text \<open>The requests are served one after the other; the result is the responses and the last world.\<close>

fun serve_all :: "runtime \<Rightarrow> string \<Rightarrow> world \<Rightarrow> request list \<Rightarrow> response list \<times> world" where
  "serve_all rt category w [] = ([], w)"
| "serve_all rt category w (req # reqs) =
     (case serve rt category w req of
        (r, w') \<Rightarrow> (case serve_all rt category w' reqs of (rs, w'') \<Rightarrow> (r # rs, w'')))"

definition answer :: "response \<Rightarrow> nat \<times> json option" where
  "answer r = (status_of r, property (body_of r) ''id'')"

definition catalog_ids :: "runtime \<Rightarrow> world \<Rightarrow> string \<Rightarrow> json option list" where
  "catalog_ids rt w category =
     (case loadProducts rt w category of
        Inr (JArr products) \<Rightarrow> map (\<lambda>p. property p ''id'') products
      | _ \<Rightarrow> [])"

definition answer_url :: "response \<Rightarrow> nat \<times> json option" where
  "answer_url r = (status_of r, property (body_of r) ''url'')"

text \<open>
  The invariant of a catalog: every record has a number as its id, and no two records
  have the same. A catalog file is in order when it is absent or holds such a list.
\<close>

definition has_num_id :: "json \<Rightarrow> bool" where
  "has_num_id p =
     (is_record p \<and>
      (case property p ''id'' of Some (JNum r) \<Rightarrow> True | _ \<Rightarrow> False))"

definition unique_ids :: "json list \<Rightarrow> bool" where
  "unique_ids ps = (list_all has_num_id ps \<and> distinct (map id_number ps))"

definition catalog_ok :: "runtime \<Rightarrow> string \<Rightarrow> world \<Rightarrow> bool" where
  "catalog_ok rt category w =
     (case files w (getProductsFilePath rt category) of
        None \<Rightarrow> True
      | Some (File (Text (JArr ps))) \<Rightarrow> unique_ids ps
      | _ \<Rightarrow> False)"

text \<open>A request that is not a Create with an \<open>id\<close> in its body.\<close>

definition id_free :: "request \<Rightarrow> bool" where
  "id_free req =
     (case req of
        Create body t1 t2 \<Rightarrow> own_props body ''id'' = None
      | _ \<Rightarrow> True)"

section \<open>Example inputs\<close>

definition posix :: runtime where
  "posix =
     \<lparr>dirname = ''/srv/tutu'',
      path_join = (\<lambda>a b. if take 1 b = ''/'' then a @ b else a @ ''/'' @ b),
      path_extname =
        (\<lambda>name. if CHR ''.'' \<in> set name
                 then CHR ''.'' # rev (takeWhile (\<lambda>c. c \<noteq> CHR ''.'') (rev name))
                 else []),
      coerce = (\<lambda>v. Some NaN)\<rparr>"

definition no_files :: world where
  "no_files = \<lparr>files = Map.empty, console = []\<rparr>"

definition stored :: "json \<Rightarrow> world" where
  "stored v = \<lparr>files = [getProductsFilePath posix ''coffee'' \<mapsto> File (Text v)], console = []\<rparr>"

definition holding :: "node \<Rightarrow> world" where
  "holding n = \<lparr>files = [getProductsFilePath posix ''coffee'' \<mapsto> n], console = []\<rparr>"

definition text_file :: upload where
  "text_file =
     \<lparr>fieldname = ''image'', originalname = ''notes.txt'', mimetype = ''text/plain'',
      filesize = 120, filedata = Garbled\<rparr>"

definition big_image :: upload where
  "big_image =
     \<lparr>fieldname = ''image'', originalname = ''poster.png'', mimetype = ''image/png'',
      filesize = 11 * 1024 * 1024, filedata = Garbled\<rparr>"

definition small_image :: upload where
  "small_image =
     \<lparr>fieldname = ''image'', originalname = ''photo.png'', mimetype = ''image/png'',
      filesize = 9 * 1024 * 1024, filedata = Garbled\<rparr>"

definition song :: upload where
  "song =
     \<lparr>fieldname = ''audio'', originalname = ''tune.mp3'', mimetype = ''audio/mpeg'',
      filesize = 4 * 1024 * 1024, filedata = Garbled\<rparr>"

definition memo :: upload where
  "memo =
     \<lparr>fieldname = ''audio'', originalname = ''memo.txt'', mimetype = ''text/plain'',
      filesize = 120, filedata = Garbled\<rparr>"

definition latte :: json where
  "latte = JObj [''name'' \<mapsto> JStr ''Latte'', ''price'' \<mapsto> JNum (9 / 2)]"

definition product_4 :: json where
  "product_4 = JObj [''id'' \<mapsto> JNum 4, ''name'' \<mapsto> JStr ''Mocha'']"

definition product_2 :: json where
  "product_2 = JObj [''id'' \<mapsto> JNum 2, ''name'' \<mapsto> JStr ''Espresso'']"

definition product_12 :: json where
  "product_12 = JObj [''id'' \<mapsto> JNum 12, ''name'' \<mapsto> JStr ''Cortado'']"

definition price_5 :: json where
  "price_5 = JObj [''price'' \<mapsto> JNum 5]"

definition espresso :: json where
  "espresso =
     JObj [''id'' \<mapsto> JNum 2, ''name'' \<mapsto> JStr ''Espresso'',
           ''image'' \<mapsto> JStr ''/uploads/images/a.png'',
           ''audioFile'' \<mapsto> JStr ''/uploads/audio/gone.mp3'']"

definition shop :: world where
  "shop =
     \<lparr>files =
        [getProductsFilePath posix ''coffee'' \<mapsto> File (Text (JArr [product_4, espresso])),
         ''/srv/tutu/uploads/images/a.png'' \<mapsto> File Garbled],
      console = []\<rparr>"

definition body_id_1 :: json where
  "body_id_1 = JObj [''id'' \<mapsto> JNum 1, ''name'' \<mapsto> JStr ''Flat white'']"

definition body_with_id :: json where
  "body_with_id = JObj [''id'' \<mapsto> JNum 7]"

section \<open>The file store: basic facts\<close>

lemma loadProducts_absent:
  "files w (getProductsFilePath rt category) = None \<Longrightarrow> loadProducts rt w category = Inr (JArr [])"
  by (simp add: loadProducts_def readFile_def)

lemma loadProducts_text:
  "files w (getProductsFilePath rt category) = Some (File (Text v)) \<Longrightarrow>
   loadProducts rt w category = Inr v"
  by (simp add: loadProducts_def readFile_def JSON_parse_def)

lemma loadProducts_denied:
  "files w (getProductsFilePath rt category) = Some Denied \<Longrightarrow>
   loadProducts rt w category = Inl (SystemError ''EACCES'')"
  by (simp add: loadProducts_def readFile_def)

lemma loadProducts_garbled:
  "files w (getProductsFilePath rt category) = Some (File Garbled) \<Longrightarrow>
   loadProducts rt w category = Inl SyntaxError"
  by (simp add: loadProducts_def readFile_def JSON_parse_def)

lemma loaded_not_denied:
  "loadProducts rt w category = Inr v \<Longrightarrow> files w (getProductsFilePath rt category) \<noteq> Some Denied"
  by (auto simp: loadProducts_def readFile_def)

lemma saveProducts_loaded:
  "loadProducts rt w category = Inr v \<Longrightarrow>
   saveProducts rt w category products =
     Inr (w\<lparr>files := (files w)(getProductsFilePath rt category \<mapsto> File (Text (JArr products)))\<rparr>)"
  using loaded_not_denied [of rt w category v]
  by (auto simp: saveProducts_def writeFile_def split: option.splits node.splits)

lemma loadProducts_saved:
  "loadProducts rt (w\<lparr>files := (files w)(getProductsFilePath rt category \<mapsto> File (Text v))\<rparr>) category = Inr v"
  by (simp add: loadProducts_text)

lemma post_product_ok:
  assumes "loadProducts rt w category = Inr (JArr products)"
    and "newId rt products = Inr n"
  shows "post_product rt w category body t1 t2 =
     (Resp 201 (new_product n body t1 t2),
      w\<lparr>files := (files w)(getProductsFilePath rt category \<mapsto>
           File (Text (JArr (products @ [new_product n body t1 t2]))))\<rparr>)"
  using assms saveProducts_loaded [OF assms(1)]
  by (simp add: post_product_def create_def as_array_def Let_def)

section \<open>Create\<close>

text \<open>
  What the object literal of Create holds: the two time stamps of the service
  whatever the body says, the \<open>id\<close> of the body when the body has one, and every
  other field of the body.
\<close>

lemma new_product_fields:
  shows "property (new_product n body t1 t2) ''createdAt'' = Some (JStr t1)"
    and "property (new_product n body t1 t2) ''updatedAt'' = Some (JStr t2)"
    and "own_props body ''id'' = Some v \<Longrightarrow> property (new_product n body t1 t2) ''id'' = Some v"
    and "k \<noteq> ''id'' \<Longrightarrow> k \<noteq> ''createdAt'' \<Longrightarrow> k \<noteq> ''updatedAt'' \<Longrightarrow>
      property (new_product n body t1 t2) k = own_props body k"
  by (simp_all add: new_product_def property_def map_add_def split: option.splits)

text \<open>
  Claim C1. Create computes the new id as the greatest existing id plus one, merges
  the fields of the body with \<open>id\<close>, \<open>createdAt\<close> and \<open>updatedAt\<close> so that the
  three fields of the service win, appends, saves and returns the product. The
  handler writes \<open>id\<close> before the spread of the body and the time stamps after it:
  for the body \<open>{"id": 7}\<close> and an empty catalog the computed id is 1, and the product
  created, saved and returned has the id 7 of the body.
\<close>

theorem create_keeps_body_id:
  "newId posix [] = Inr (Num 1) \<and>
   status_of (fst (post_product posix no_files ''coffee'' body_with_id ''t1'' ''t2'')) = 201 \<and>
   property (body_of (fst (post_product posix no_files ''coffee'' body_with_id ''t1'' ''t2''))) ''id''
     = Some (JNum 7)"
proof -
  have l: "loadProducts posix no_files ''coffee'' = Inr (JArr [])"
    by (rule loadProducts_absent) (simp add: no_files_def)
  have n: "newId posix [] = Inr (Num 1)"
    by (simp add: newId_def)
  show ?thesis
    by (simp add: post_product_ok [OF l n] n status_of_def body_of_def new_product_def
        property_def body_with_id_def own_props_def)
qed

section \<open>The new id\<close>

lemma id_or_0_num: "num_id p \<Longrightarrow> id_or_0 p = Inr (JNum (id_number p))"
  by (auto simp: num_id_def id_or_0_def is_record_def member_def property_def id_number_def truthy_def
      split: json.splits option.splits)

lemma map_ids_num: "list_all num_id ps \<Longrightarrow> map_ids ps = Inr (map (\<lambda>p. JNum (id_number p)) ps)"
  by (induction ps) (simp_all add: id_or_0_num)

lemma Math_max_nums:
  "Math_max rt (map (\<lambda>p. JNum (f p)) ps) = Inr (if ps = [] then NegInf else Num (Max (set (map f ps))))"
proof (induction ps)
  case Nil
  then show ?case by simp
next
  case (Cons p ps)
  show ?case
  proof (cases "ps = []")
    case True
    then show ?thesis by (simp add: ToNumber_def)
  next
    case False
    then have "Max (insert (f p) (f ` set ps)) = max (f p) (Max (f ` set ps))"
      by (intro Max_insert) auto
    with Cons False show ?thesis by (simp add: ToNumber_def)
  qed
qed



lemma newId_num:
  assumes "list_all num_id products"
  shows "newId rt products =
     Inr (Num ((if products = [] then 0 else Max (set (map id_number products))) + 1))"
  using assms by (simp add: newId_def map_ids_num Math_max_nums js_add1_def)

lemma new_product_id:
  "own_props body ''id'' = None \<Longrightarrow> property (new_product n body t1 t2) ''id'' = Some (num_to_json n)"
  by (simp add: new_product_def property_def map_add_def)


lemma new_product_id_number:
  "own_props body ''id'' = None \<Longrightarrow> id_number (new_product (Num r) body t1 t2) = r"
  by (simp add: id_number_def new_product_id num_to_json_def)

lemma post_product_fresh:
  assumes "loadProducts rt w category = Inr (JArr products)"
    and "list_all num_id products"
  shows "post_product rt w category body t1 t2 =
     (Resp 201 (new_product (Num ((if products = [] then 0 else Max (set (map id_number products))) + 1)) body t1 t2),
      w\<lparr>files := (files w)(getProductsFilePath rt category \<mapsto>
           File (Text (JArr (products @
             [new_product (Num ((if products = [] then 0 else Max (set (map id_number products))) + 1)) body t1 t2]))))\<rparr>)"
  by (rule post_product_ok [OF assms(1) newId_num [OF assms(2)]])




section \<open>Looking a product up\<close>

lemma member_record: "is_record p \<Longrightarrow> member p name = Inr (property p name)"
  by (cases p) (simp_all add: is_record_def member_def property_def)


lemma findIndex_by_id_first:
  "list_all is_record ps \<Longrightarrow> i < length ps \<Longrightarrow> has_id n (ps ! i) \<Longrightarrow>
   list_all (\<lambda>p. \<not> has_id n p) (take i ps) \<Longrightarrow> findIndex_by_id ps n = Inr (Some i)"
proof (induction ps arbitrary: i)
  case Nil
  then show ?case by simp
next
  case (Cons p ps)
  show ?case
  proof (cases i)
    case 0
    with Cons.prems show ?thesis by (simp add: member_record has_id_def)
  next
    case (Suc j)
    with Cons.prems have "findIndex_by_id ps n = Inr (Some j)"
      by (intro Cons.IH) simp_all
    with Cons.prems Suc show ?thesis by (simp add: member_record has_id_def)
  qed
qed

lemma find_by_id_none:
  "list_all is_record ps \<Longrightarrow> list_all (\<lambda>p. \<not> has_id n p) ps \<Longrightarrow> find_by_id ps n = Inr None"
  by (induction ps) (simp_all add: member_record has_id_def)

lemma find_by_id_first:
  "list_all is_record ps \<Longrightarrow> i < length ps \<Longrightarrow> has_id n (ps ! i) \<Longrightarrow>
   list_all (\<lambda>p. \<not> has_id n p) (take i ps) \<Longrightarrow> find_by_id ps n = Inr (Some (ps ! i))"
proof (induction ps arbitrary: i)
  case Nil
  then show ?case by simp
next
  case (Cons p ps)
  show ?case
  proof (cases i)
    case 0
    with Cons.prems show ?thesis by (simp add: member_record has_id_def)
  next
    case (Suc j)
    with Cons.prems have "find_by_id ps n = Inr (Some (ps ! j))"
      by (intro Cons.IH) simp_all
    with Cons.prems Suc show ?thesis by (simp add: member_record has_id_def)
  qed
qed


section \<open>Update\<close>




lemma put_product_ok:
  assumes "loadProducts rt w category = Inr (JArr products)"
    and "list_all is_record products"
    and "parseInt ident = Num n"
    and "i < length products"
    and "has_id (Num n) (products ! i)"
    and "list_all (\<lambda>p. \<not> has_id (Num n) p) (take i products)"
  shows "put_product rt w category ident body t =
     (Resp 200 (updated_product (products ! i) body (Num n) t),
      w\<lparr>files := (files w)(getProductsFilePath rt category \<mapsto>
           File (Text (JArr (products[i := updated_product (products ! i) body (Num n) t]))))\<rparr>)"
  using assms saveProducts_loaded [OF assms(1)]
  by (simp add: put_product_def update_def as_array_def findIndex_by_id_first Let_def)

lemma own_props_record: "is_record p \<Longrightarrow> own_props p = property p"
  by (cases p) (simp_all add: is_record_def own_props_def property_def fun_eq_iff)

lemma updated_product_props:
  "property (updated_product old body (Num n) t) ''id'' = Some (JNum n)"
  "property (updated_product old body (Num n) t) ''updatedAt'' = Some (JStr t)"
  "k \<noteq> ''id'' \<Longrightarrow> k \<noteq> ''updatedAt'' \<Longrightarrow>
   property (updated_product old body (Num n) t) k =
     (case own_props body k of Some v \<Rightarrow> Some v | None \<Rightarrow> own_props old k)"
  by (simp_all add: updated_product_def property_def num_to_json_def map_add_def)

text \<open>
  Claim C4. Update of an existing product (the first record with the id of the path
  parameter, at position \<open>i\<close>) answers 200 with the record that results from the old
  one by the fields of the body, with \<open>id\<close> set to the parsed path parameter and
  \<open>updatedAt\<close> to the time stamp: a field of the body wins over the old value, a
  field the body omits keeps its value. The saved catalog is the old list with this
  record at position \<open>i\<close>: the other records and the order are unchanged.
\<close>

theorem update_merges:
  assumes "loadProducts rt w category = Inr (JArr products)"
    and "list_all is_record products"
    and "parseInt ident = Num n"
    and "i < length products"
    and "has_id (Num n) (products ! i)"
    and "list_all (\<lambda>p. \<not> has_id (Num n) p) (take i products)"
  shows "\<exists>u w'.
     put_product rt w category ident body t = (Resp 200 u, w') \<and>
     property u ''id'' = Some (JNum n) \<and>
     property u ''updatedAt'' = Some (JStr t) \<and>
     (\<forall>k. k \<noteq> ''id'' \<and> k \<noteq> ''updatedAt'' \<longrightarrow>
        property u k =
          (case own_props body k of Some v \<Rightarrow> Some v | None \<Rightarrow> property (products ! i) k)) \<and>
     (\<forall>k. own_props body k = None \<and> k \<noteq> ''updatedAt'' \<longrightarrow>
        property u k = property (products ! i) k) \<and>
     loadProducts rt w' category = Inr (JArr (products[i := u])) \<and>
     console w' = console w"
proof -
  let ?u = "updated_product (products ! i) body (Num n) t"
  let ?w' = "w\<lparr>files := (files w)(getProductsFilePath rt category \<mapsto>
       File (Text (JArr (products[i := ?u]))))\<rparr>"
  have rec: "is_record (products ! i)"
    using assms(2,4) by (simp add: list_all_length)
  have old: "property (products ! i) ''id'' = Some (JNum n)"
    using assms(5) by (auto simp: has_id_def strict_eq_def split: option.splits json.splits)
  have "put_product rt w category ident body t = (Resp 200 ?u, ?w')"
    by (rule put_product_ok [OF assms])
  moreover have "\<forall>k. k \<noteq> ''id'' \<and> k \<noteq> ''updatedAt'' \<longrightarrow>
        property ?u k =
          (case own_props body k of Some v \<Rightarrow> Some v | None \<Rightarrow> property (products ! i) k)"
    by (simp add: updated_product_props own_props_record [OF rec] split: option.splits)
  moreover have "\<forall>k. own_props body k = None \<and> k \<noteq> ''updatedAt'' \<longrightarrow>
        property ?u k = property (products ! i) k"
  proof (intro allI impI)
    fix k assume k: "own_props body k = None \<and> k \<noteq> ''updatedAt''"
    show "property ?u k = property (products ! i) k"
    proof (cases "k = ''id''")
      case True
      then show ?thesis by (simp add: updated_product_props old)
    next
      case False
      with k show ?thesis by (simp add: updated_product_props own_props_record [OF rec])
    qed
  qed
  moreover have "loadProducts rt ?w' category = Inr (JArr (products[i := ?u]))"
    by (rule loadProducts_saved)
  ultimately show ?thesis
    by (intro exI [of _ ?u] exI [of _ ?w']) (simp add: updated_product_props)
qed


theorem update_merges_witness:
  "\<exists>u w'.
     put_product posix (stored (JArr [product_4, product_2])) ''coffee'' ''2'' price_5
       ''2024-05-02T08:00:00.000Z'' = (Resp 200 u, w') \<and>
     property u ''id'' = Some (JNum 2) \<and>
     property u ''updatedAt'' = Some (JStr ''2024-05-02T08:00:00.000Z'') \<and>
     property u ''price'' = Some (JNum 5) \<and>
     property u ''name'' = Some (JStr ''Espresso'') \<and>
     loadProducts posix w' ''coffee'' = Inr (JArr [product_4, u])"
proof -
  have l: "loadProducts posix (stored (JArr [product_4, product_2])) ''coffee''
      = Inr (JArr [product_4, product_2])"
    by (rule loadProducts_text) (simp add: stored_def)
  have r: "list_all is_record [product_4, product_2]"
    by (simp add: is_record_def product_4_def product_2_def)
  have p: "parseInt ''2'' = Num 2"
    by (simp add: parseInt_def is_ws_def is_digit_def digit_of_def digits_value_def)
  have i: "1 < length [product_4, product_2]"
    by simp
  have h: "has_id (Num 2) ([product_4, product_2] ! 1)"
    by (simp add: has_id_def strict_eq_def property_def product_2_def)
  have e: "list_all (\<lambda>p. \<not> has_id (Num 2) p) (take 1 [product_4, product_2])"
    by (simp add: has_id_def strict_eq_def property_def product_4_def)
  from update_merges [OF l r p i h e, of price_5 "''2024-05-02T08:00:00.000Z''"]
  obtain u w' where u:
    "put_product posix (stored (JArr [product_4, product_2])) ''coffee'' ''2'' price_5
       ''2024-05-02T08:00:00.000Z'' = (Resp 200 u, w')"
    "property u ''id'' = Some (JNum 2)"
    "property u ''updatedAt'' = Some (JStr ''2024-05-02T08:00:00.000Z'')"
    "\<forall>k. k \<noteq> ''id'' \<and> k \<noteq> ''updatedAt'' \<longrightarrow>
        property u k =
          (case own_props price_5 k of Some v \<Rightarrow> Some v
           | None \<Rightarrow> property ([product_4, product_2] ! 1) k)"
    "loadProducts posix w' ''coffee'' = Inr (JArr ([product_4, product_2][1 := u]))"
    by blast
  from u(4) have "property u ''price'' = Some (JNum 5)"
    by (simp add: price_5_def own_props_def)
  moreover from u(4) have "property u ''name'' = Some (JStr ''Espresso'')"
    by (simp add: price_5_def own_props_def property_def product_2_def)
  ultimately show ?thesis
    using u(1,2,3,5) by simp
qed

section \<open>Decimal strings\<close>
















section \<open>The id path parameter\<close>



lemma get_product_none:
  assumes "loadProducts rt w category = Inr (JArr products)"
    and "list_all is_record products"
    and "list_all (\<lambda>p. \<not> has_id (parseInt ident) p) products"
  shows "get_product rt w category ident = (Resp 404 (error_body ''Product not found''), w)"
  using assms by (simp add: get_product_def find_product_def as_array_def find_by_id_none)


lemma get_product_first:
  assumes "loadProducts rt w category = Inr (JArr products)"
    and "list_all is_record products"
    and "i < length products"
    and "has_id (parseInt ident) (products ! i)"
    and "list_all (\<lambda>p. \<not> has_id (parseInt ident) p) (take i products)"
  shows "get_product rt w category ident = (Resp 200 (products ! i), w)"
proof -
  have "is_record (products ! i)"
    using assms(2,3) by (simp add: list_all_length)
  then have "truthy (products ! i)"
    by (cases "products ! i") (simp_all add: is_record_def truthy_def)
  then show ?thesis
    using assms by (simp add: get_product_def find_product_def as_array_def find_by_id_first)
qed






section \<open>Create, then get\<close>









section \<open>Loading a catalog\<close>

lemma loadProducts_reads_one_file:
  "files w (getProductsFilePath rt category) = files w' (getProductsFilePath rt category) \<Longrightarrow>
   loadProducts rt w category = loadProducts rt w' category"
  by (simp add: loadProducts_def readFile_def)

lemma load_failure_500:
  assumes "loadProducts rt w category = Inl e"
  shows "status_of (fst (get_products rt w category)) = 500"
    and "status_of (fst (get_product rt w category ident)) = 500"
    and "status_of (fst (post_product rt w category body t1 t2)) = 500"
    and "status_of (fst (put_product rt w category ident body t)) = 500"
    and "status_of (fst (delete_product rt w category ident)) = 500"
  using assms
  by (simp_all add: get_products_def get_product_def find_product_def post_product_def create_def
      put_product_def update_def delete_product_def delete_def status_of_def)

text \<open>
  Claim C7. \<open>load(category)\<close> reads the file \<open>products_<category>.json\<close> of the data
  directory and nothing else. When the file does not exist the result is the empty
  sequence and List answers 200 with an empty array; when it holds JSON text the
  result is its value. Every other failure (the file cannot be read, or its text
  is not JSON) is raised by \<open>load\<close>, and each of the five product routes answers
  it with 500.
\<close>

theorem load_missing_or_broken:
  "getProductsFilePath rt category =
     path_join rt (path_join rt (dirname rt) ''data'') (''products_'' @ category @ ''.json'') \<and>
   (files w (getProductsFilePath rt category) = files w' (getProductsFilePath rt category) \<longrightarrow>
      loadProducts rt w category = loadProducts rt w' category) \<and>
   (files w0 (getProductsFilePath rt category) = None \<longrightarrow>
      loadProducts rt w0 category = Inr (JArr []) \<and>
      get_products rt w0 category = (Resp 200 (JArr []), w0)) \<and>
   (files w1 (getProductsFilePath rt category) = Some (File (Text v)) \<longrightarrow>
      loadProducts rt w1 category = Inr v \<and>
      get_products rt w1 category = (Resp 200 v, w1)) \<and>
   (files w2 (getProductsFilePath rt category) = Some Denied \<or>
    files w2 (getProductsFilePath rt category) = Some (File Garbled) \<longrightarrow>
      (\<exists>e. loadProducts rt w2 category = Inl e) \<and>
      get_products rt w2 category =
        (Resp 500 (error_body ''Failed to load products''),
         w2\<lparr>console := console w2 @
           [(''Error loading products:'',
             if files w2 (getProductsFilePath rt category) = Some Denied
             then SystemError ''EACCES'' else SyntaxError)]\<rparr>) \<and>
      status_of (fst (get_product rt w2 category ident)) = 500 \<and>
      status_of (fst (post_product rt w2 category body t1 t2)) = 500 \<and>
      status_of (fst (put_product rt w2 category ident body t)) = 500 \<and>
      status_of (fst (delete_product rt w2 category ident)) = 500)"
proof (intro conjI impI)
  show "getProductsFilePath rt category =
     path_join rt (path_join rt (dirname rt) ''data'') (''products_'' @ category @ ''.json'')"
    by (simp add: getProductsFilePath_def dataDir_def)
next
  assume "files w (getProductsFilePath rt category) = files w' (getProductsFilePath rt category)"
  then show "loadProducts rt w category = loadProducts rt w' category"
    by (rule loadProducts_reads_one_file)
next
  assume a: "files w0 (getProductsFilePath rt category) = None"
  then show "loadProducts rt w0 category = Inr (JArr [])"
    by (rule loadProducts_absent)
  with a show "get_products rt w0 category = (Resp 200 (JArr []), w0)"
    by (simp add: get_products_def)
next
  assume a: "files w1 (getProductsFilePath rt category) = Some (File (Text v))"
  then show l: "loadProducts rt w1 category = Inr v"
    by (rule loadProducts_text)
  then show "get_products rt w1 category = (Resp 200 v, w1)"
    by (simp add: get_products_def)
next
  assume a: "files w2 (getProductsFilePath rt category) = Some Denied \<or>
    files w2 (getProductsFilePath rt category) = Some (File Garbled)"
  then have l: "loadProducts rt w2 category =
      Inl (if files w2 (getProductsFilePath rt category) = Some Denied
           then SystemError ''EACCES'' else SyntaxError)"
    by (auto simp: loadProducts_denied loadProducts_garbled)
  then show "\<exists>e. loadProducts rt w2 category = Inl e"
    by blast
  from l show "get_products rt w2 category =
        (Resp 500 (error_body ''Failed to load products''),
         w2\<lparr>console := console w2 @
           [(''Error loading products:'',
             if files w2 (getProductsFilePath rt category) = Some Denied
             then SystemError ''EACCES'' else SyntaxError)]\<rparr>)"
    by (simp add: get_products_def console_error_def)
  from l show "status_of (fst (get_product rt w2 category ident)) = 500"
    by (rule load_failure_500)
  from l show "status_of (fst (post_product rt w2 category body t1 t2)) = 500"
    by (rule load_failure_500)
  from l show "status_of (fst (put_product rt w2 category ident body t)) = 500"
    by (rule load_failure_500)
  from l show "status_of (fst (delete_product rt w2 category ident)) = 500"
    by (rule load_failure_500)
qed

theorem load_missing_or_broken_witness:
  "loadProducts posix (holding (File (Text (JArr [product_12])))) ''coffee''
     = loadProducts posix (stored (JArr [product_12])) ''coffee'' \<and>
   loadProducts posix no_files ''coffee'' = Inr (JArr []) \<and>
   get_products posix no_files ''coffee'' = (Resp 200 (JArr []), no_files) \<and>
   get_products posix (stored (JArr [product_12])) ''coffee''
     = (Resp 200 (JArr [product_12]), stored (JArr [product_12])) \<and>
   fst (get_products posix (holding (File Garbled)) ''coffee'')
     = Resp 500 (error_body ''Failed to load products'') \<and>
   status_of (fst (get_product posix (holding (File Garbled)) ''coffee'' ''1'')) = 500 \<and>
   status_of (fst (post_product posix (holding (File Garbled)) ''coffee'' latte ''t'' ''t'')) = 500 \<and>
   status_of (fst (put_product posix (holding (File Garbled)) ''coffee'' ''1'' latte ''t'')) = 500 \<and>
   status_of (fst (delete_product posix (holding (File Garbled)) ''coffee'' ''1'')) = 500"
proof -
  let ?path = "getProductsFilePath posix ''coffee''"
  have h: "files (holding (File (Text (JArr [product_12])))) ?path
      = files (stored (JArr [product_12])) ?path"
    by (simp add: holding_def stored_def)
  have h0: "files no_files ?path = None"
    by (simp add: no_files_def)
  have h1: "files (stored (JArr [product_12])) ?path = Some (File (Text (JArr [product_12])))"
    by (simp add: stored_def)
  have h2: "files (holding (File Garbled)) ?path = Some (File Garbled)"
    by (simp add: holding_def)
  show ?thesis
    using load_missing_or_broken [where rt = posix and category = "''coffee''"
        and w = "holding (File (Text (JArr [product_12])))" and w' = "stored (JArr [product_12])"
        and ?w0.0 = no_files and ?w1.0 = "stored (JArr [product_12])" and v = "JArr [product_12]"
        and ?w2.0 = "holding (File Garbled)" and ident = "''1''" and body = latte
        and ?t1.0 = "''t''" and ?t2.0 = "''t''" and t = "''t''"] h h0 h1 h2
    by simp
qed

section \<open>Uploads\<close>

lemma final_handler_plain: "final_handler_status (new_Error msg) = 500"
  "final_handler_status (MulterError code) = 500"
  by (simp_all add: final_handler_status_def new_Error_def MulterError_def)

lemma upload_image_cases:
  shows "upload_image rt w No_file now rnd = (Resp 400 (error_body ''No image file provided''), w)"
    and "fieldname f = ''image'' \<Longrightarrow> \<not> prefix ''image/'' (mimetype f) \<Longrightarrow>
      upload_image rt w (File_part f) now rnd = (Error_page 500, w)"
    and "fieldname f = ''image'' \<Longrightarrow> prefix ''image/'' (mimetype f) \<Longrightarrow>
      filesize f > 10 * 1024 * 1024 \<Longrightarrow>
      upload_image rt w (File_part f) now rnd = (Error_page 500, w)"
    and "fieldname f = ''image'' \<Longrightarrow> prefix ''image/'' (mimetype f) \<Longrightarrow>
      filesize f \<le> 10 * 1024 * 1024 \<Longrightarrow>
      files w (path_join rt (uploadsImagesDir rt) (storage_filename rt now rnd f)) \<noteq> Some Denied \<Longrightarrow>
      upload_image rt w (File_part f) now rnd =
        (Resp 200 (JObj [''url'' \<mapsto> JStr (''/uploads/images/'' @ storage_filename rt now rnd f),
                         ''filename'' \<mapsto> JStr (storage_filename rt now rnd f)]),
         w\<lparr>files := (files w)(path_join rt (uploadsImagesDir rt) (storage_filename rt now rnd f)
              \<mapsto> File (filedata f))\<rparr>)"
  by (auto simp: upload_image_def imageUpload_def multer_single_def image_fileFilter_def
      final_handler_plain writeFile_def Let_def split: option.splits node.splits)

lemma upload_audio_cases:
  shows "upload_audio rt w No_file now rnd = (Resp 400 (error_body ''No audio file provided''), w)"
    and "fieldname f = ''audio'' \<Longrightarrow> \<not> prefix ''audio/'' (mimetype f) \<Longrightarrow>
      upload_audio rt w (File_part f) now rnd = (Error_page 500, w)"
    and "fieldname f = ''audio'' \<Longrightarrow> prefix ''audio/'' (mimetype f) \<Longrightarrow>
      filesize f > 50 * 1024 * 1024 \<Longrightarrow>
      upload_audio rt w (File_part f) now rnd = (Error_page 500, w)"
    and "fieldname f = ''audio'' \<Longrightarrow> prefix ''audio/'' (mimetype f) \<Longrightarrow>
      filesize f \<le> 50 * 1024 * 1024 \<Longrightarrow>
      files w (path_join rt (uploadsAudioDir rt) (storage_filename rt now rnd f)) \<noteq> Some Denied \<Longrightarrow>
      upload_audio rt w (File_part f) now rnd =
        (Resp 200 (JObj [''url'' \<mapsto> JStr (''/uploads/audio/'' @ storage_filename rt now rnd f),
                         ''filename'' \<mapsto> JStr (storage_filename rt now rnd f)]),
         w\<lparr>files := (files w)(path_join rt (uploadsAudioDir rt) (storage_filename rt now rnd f)
              \<mapsto> File (filedata f))\<rparr>)"
  by (auto simp: upload_audio_def audioUpload_def multer_single_def audio_fileFilter_def
      final_handler_plain writeFile_def Let_def split: option.splits node.splits)

text \<open>
  Claim C8 says that a file of the wrong type is answered with 400 and a file above
  the ceiling with 413. Both rejections are errors the middleware passes on; no
  handler of the repository maps them to a status, and the final handler answers an
  error without a status with 500: so it is for a \<open>text/plain\<close> file and for an image
  of 11 MiB sent to the image route.
\<close>

theorem upload_errors_answer_500:
  "status_of (fst (upload_image posix no_files (File_part text_file) 1714557600000 123456789)) = 500 \<and>
   status_of (fst (upload_image posix no_files (File_part big_image) 1714557600000 123456789)) = 500"
proof -
  have "fieldname text_file = ''image''" "\<not> prefix ''image/'' (mimetype text_file)"
    by (simp_all add: text_file_def)
  then have t: "upload_image posix no_files (File_part text_file) 1714557600000 123456789
      = (Error_page 500, no_files)"
    by (rule upload_image_cases)
  have "fieldname big_image = ''image''" "prefix ''image/'' (mimetype big_image)"
    "filesize big_image > 10 * 1024 * 1024"
    by (simp_all add: big_image_def)
  then have b: "upload_image posix no_files (File_part big_image) 1714557600000 123456789
      = (Error_page 500, no_files)"
    by (rule upload_image_cases)
  show ?thesis
    by (simp add: t b status_of_def)
qed

text \<open>
  Claim C8, as the code has it, for the image route (ceiling 10 MiB) and the audio
  route (ceiling 50 MiB): a request without a file part is answered with 400; a file
  under the route's field name whose MIME type lacks the prefix, and one of the right
  type above the ceiling, are answered with 500; a file of the right type within the
  ceiling is stored and answered with 200 and \<open>{url, filename}\<close>.
\<close>

theorem upload_statuses:
  "upload_image rt w No_file now rnd = (Resp 400 (error_body ''No image file provided''), w) \<and>
   (fieldname f = ''image'' \<and> \<not> prefix ''image/'' (mimetype f) \<longrightarrow>
      upload_image rt w (File_part f) now rnd = (Error_page 500, w)) \<and>
   (fieldname f = ''image'' \<and> prefix ''image/'' (mimetype f) \<and> filesize f > 10 * 1024 * 1024 \<longrightarrow>
      upload_image rt w (File_part f) now rnd = (Error_page 500, w)) \<and>
   (fieldname f = ''image'' \<and> prefix ''image/'' (mimetype f) \<and> filesize f \<le> 10 * 1024 * 1024 \<and>
    files w (path_join rt (uploadsImagesDir rt) (storage_filename rt now rnd f)) \<noteq> Some Denied \<longrightarrow>
      upload_image rt w (File_part f) now rnd =
        (Resp 200 (JObj [''url'' \<mapsto> JStr (''/uploads/images/'' @ storage_filename rt now rnd f),
                         ''filename'' \<mapsto> JStr (storage_filename rt now rnd f)]),
         w\<lparr>files := (files w)(path_join rt (uploadsImagesDir rt) (storage_filename rt now rnd f)
              \<mapsto> File (filedata f))\<rparr>)) \<and>
   upload_audio rt w No_file now rnd = (Resp 400 (error_body ''No audio file provided''), w) \<and>
   (fieldname g = ''audio'' \<and> \<not> prefix ''audio/'' (mimetype g) \<longrightarrow>
      upload_audio rt w (File_part g) now rnd = (Error_page 500, w)) \<and>
   (fieldname g = ''audio'' \<and> prefix ''audio/'' (mimetype g) \<and> filesize g > 50 * 1024 * 1024 \<longrightarrow>
      upload_audio rt w (File_part g) now rnd = (Error_page 500, w)) \<and>
   (fieldname g = ''audio'' \<and> prefix ''audio/'' (mimetype g) \<and> filesize g \<le> 50 * 1024 * 1024 \<and>
    files w (path_join rt (uploadsAudioDir rt) (storage_filename rt now rnd g)) \<noteq> Some Denied \<longrightarrow>
      upload_audio rt w (File_part g) now rnd =
        (Resp 200 (JObj [''url'' \<mapsto> JStr (''/uploads/audio/'' @ storage_filename rt now rnd g),
                         ''filename'' \<mapsto> JStr (storage_filename rt now rnd g)]),
         w\<lparr>files := (files w)(path_join rt (uploadsAudioDir rt) (storage_filename rt now rnd g)
              \<mapsto> File (filedata g))\<rparr>))"
  by (intro conjI impI upload_image_cases upload_audio_cases) simp_all


theorem upload_statuses_witness:
  "upload_image posix no_files No_file 1714557600000 123456789
     = (Resp 400 (error_body ''No image file provided''), no_files) \<and>
   fst (upload_image posix no_files (File_part text_file) 1714557600000 123456789) = Error_page 500 \<and>
   fst (upload_image posix no_files (File_part big_image) 1714557600000 123456789) = Error_page 500 \<and>
   answer_url (fst (upload_image posix no_files (File_part small_image) 1714557600000 123456789))
     = (200, Some (JStr ''/uploads/images/1714557600000-123456789.png'')) \<and>
   fst (upload_audio posix no_files (File_part memo) 1714557600000 123456789) = Error_page 500 \<and>
   answer_url (fst (upload_audio posix no_files (File_part song) 1714557600000 123456789))
     = (200, Some (JStr ''/uploads/audio/1714557600000-123456789.mp3''))"
proof -
  have n: "show_nat 1714557600000 = ''1714557600000''" "show_nat 123456789 = ''123456789''"
    by (simp_all add: show_nat.simps digit_char_def)
  have x: "storage_filename posix 1714557600000 123456789 small_image = ''1714557600000-123456789.png''"
    "storage_filename posix 1714557600000 123456789 song = ''1714557600000-123456789.mp3''"
    by (simp_all add: storage_filename_def n posix_def small_image_def song_def)
  have t: "fieldname text_file = ''image''" "\<not> prefix ''image/'' (mimetype text_file)"
    by (simp_all add: text_file_def)
  have b: "fieldname big_image = ''image''" "prefix ''image/'' (mimetype big_image)"
    "filesize big_image > 10 * 1024 * 1024"
    by (simp_all add: big_image_def)
  have s: "fieldname small_image = ''image''" "prefix ''image/'' (mimetype small_image)"
    "filesize small_image \<le> 10 * 1024 * 1024"
    by (simp_all add: small_image_def)
  have a: "fieldname song = ''audio''" "prefix ''audio/'' (mimetype song)"
    "filesize song \<le> 50 * 1024 * 1024"
    by (simp_all add: song_def)
  have u: "fieldname memo = ''audio''" "\<not> prefix ''audio/'' (mimetype memo)"
    by (simp_all add: memo_def)
  have f: "files no_files p = None" for p
    by (simp add: no_files_def)
  note w = upload_statuses [where rt = posix and w = no_files and now = 1714557600000
      and rnd = 123456789]
  show ?thesis
    using w [where f = text_file and g = song] w [where f = big_image and g = song]
      w [where f = small_image and g = memo]
      t b s a u f x
    by (simp add: answer_url_def status_of_def body_of_def property_def)
qed

section \<open>Delete\<close>

lemma remove_upload_cases:
  shows "files w (path_join rt (dirname rt) ref) = Some (File c) \<Longrightarrow>
      remove_upload rt w label ref = w\<lparr>files := (files w)(path_join rt (dirname rt) ref := None)\<rparr>"
    and "files w (path_join rt (dirname rt) ref) = None \<Longrightarrow>
      remove_upload rt w label ref = console_error w label (SystemError ''ENOENT'')"
    and "files w (path_join rt (dirname rt) ref) = Some Denied \<Longrightarrow>
      remove_upload rt w label ref = console_error w label (SystemError ''EPERM'')"
  by (simp_all add: remove_upload_def unlink_def)

lemma remove_upload_not_denied:
  "files w p \<noteq> Some Denied \<Longrightarrow> files (remove_upload rt w label ref) p \<noteq> Some Denied"
  by (auto simp: remove_upload_def unlink_def console_error_def split: option.splits node.splits)

lemma uploads_ref_string:
  "prefix ''/uploads/'' s \<Longrightarrow> uploads_ref (Some (JStr s)) = Inr (Some s)"
  by (auto simp: uploads_ref_def)

lemma after_removals_not_denied:
  "files w p \<noteq> Some Denied \<Longrightarrow> files (after_removals rt w a b) p \<noteq> Some Denied"
  by (auto simp: after_removals_def Let_def remove_upload_not_denied split: option.splits)

lemma delete_product_ok:
  assumes "loadProducts rt w category = Inr (JArr products)"
    and "list_all is_record products"
    and "i < length products"
    and "has_id (parseInt ident) (products ! i)"
    and "list_all (\<lambda>p. \<not> has_id (parseInt ident) p) (take i products)"
    and "uploads_ref (property (products ! i) ''image'') = Inr a"
    and "uploads_ref (property (products ! i) ''audioFile'') = Inr b"
  shows "delete_product rt w category ident =
     (Resp 200 (JObj [''message'' \<mapsto> JStr ''Product deleted successfully'']),
      (after_removals rt w a b)\<lparr>files := (files (after_removals rt w a b))
         (getProductsFilePath rt category \<mapsto> File (Text (JArr (splice1 i products))))\<rparr>)"
proof -
  have rec: "is_record (products ! i)"
    using assms(2,3) by (simp add: list_all_length)
  have nd: "files (after_removals rt w a b) (getProductsFilePath rt category) \<noteq> Some Denied"
    by (rule after_removals_not_denied [OF loaded_not_denied [OF assms(1)]])
  have save: "saveProducts rt (after_removals rt w a b) category (splice1 i products) =
      Inr ((after_removals rt w a b)\<lparr>files := (files (after_removals rt w a b))
         (getProductsFilePath rt category \<mapsto> File (Text (JArr (splice1 i products))))\<rparr>)"
    using nd by (auto simp: saveProducts_def writeFile_def split: option.splits node.splits)
  have idx: "findIndex_by_id products (parseInt ident) = Inr (Some i)"
    by (rule findIndex_by_id_first [OF assms(2-5)])
  show ?thesis
    using assms(1,6,7) idx save
    by (cases a; cases b)
      (simp_all add: delete_product_def delete_def as_array_def Let_def own_props_record [OF rec]
        remove_if_upload_def after_removals_def)
qed


lemma splice1_none:
  "list_all P (take i xs) \<Longrightarrow> list_all P (drop (Suc i) xs) \<Longrightarrow> list_all P (splice1 i xs)"
  by (simp add: splice1_def)

lemma splice1_records: "list_all is_record xs \<Longrightarrow> list_all is_record (splice1 i xs)"
  by (auto simp: splice1_def list_all_iff dest: in_set_takeD in_set_dropD)

text \<open>
  Claim C6 says that after a successful Delete of an id, Get of that id answers 404.
  Delete removes one record, the first with that id. When two records carry the id
  (here after a Create whose body holds \<open>"id": 1\<close>), the second one is still there:
  Delete answers 200 and Get of the same id answers 200 with the other record.
\<close>

theorem duplicate_survives_delete:
  "map answer (fst (serve_all posix ''coffee'' no_files
      [Create latte ''t1'' ''t1'', Create body_id_1 ''t2'' ''t2'', Delete ''1'', Get ''1'']))
     = [(201, Some (JNum 1)), (201, Some (JNum 1)), (200, None), (200, Some (JNum 1))]"
proof -
  let ?path = "getProductsFilePath posix ''coffee''"
  let ?p1 = "new_product (Num 1) latte ''t1'' ''t1''"
  let ?p2 = "new_product (Num 2) body_id_1 ''t2'' ''t2''"
  let ?w1 = "no_files\<lparr>files := (files no_files)(?path \<mapsto> File (Text (JArr [?p1])))\<rparr>"
  let ?w2 = "?w1\<lparr>files := (files ?w1)(?path \<mapsto> File (Text (JArr [?p1, ?p2])))\<rparr>"
  let ?w3 = "?w2\<lparr>files := (files ?w2)(?path \<mapsto> File (Text (JArr [?p2])))\<rparr>"
  have id1: "property ?p1 ''id'' = Some (JNum 1)" "property ?p1 ''image'' = None"
    "property ?p1 ''audioFile'' = None"
    by (simp_all add: new_product_def property_def latte_def own_props_def num_to_json_def map_add_def)
  have id2: "property ?p2 ''id'' = Some (JNum 1)"
    by (simp add: new_product_def property_def body_id_1_def own_props_def map_add_def)
  have rec: "is_record ?p1" "is_record ?p2"
    by (simp_all add: new_product_def is_record_def)
  have one: "parseInt ''1'' = Num 1"
    by (simp add: parseInt_def is_ws_def is_digit_def digit_of_def digits_value_def)
  have l0: "loadProducts posix no_files ''coffee'' = Inr (JArr [])"
    by (rule loadProducts_absent) (simp add: no_files_def)
  have c1: "post_product posix no_files ''coffee'' latte ''t1'' ''t1'' = (Resp 201 ?p1, ?w1)"
    using post_product_ok [OF l0, where n = "Num 1" and body = latte and ?t1.0 = "''t1''"
        and ?t2.0 = "''t1''"]
    by (simp add: newId_def)
  have l1: "loadProducts posix ?w1 ''coffee'' = Inr (JArr [?p1])"
    by (rule loadProducts_saved)
  have n1: "newId posix [?p1] = Inr (Num 2)"
    using newId_num [of "[?p1]" posix] id1(1) rec(1)
    by (simp add: num_id_def id_number_def)
  have c2: "post_product posix ?w1 ''coffee'' body_id_1 ''t2'' ''t2'' = (Resp 201 ?p2, ?w2)"
    using post_product_ok [OF l1 n1, of body_id_1 "''t2''" "''t2''"] by simp
  have l2: "loadProducts posix ?w2 ''coffee'' = Inr (JArr [?p1, ?p2])"
    by (rule loadProducts_saved)
  have r2: "list_all is_record [?p1, ?p2]"
    using rec by simp
  have h: "has_id (parseInt ''1'') ([?p1, ?p2] ! 0)"
    by (simp add: one has_id_def id1 strict_eq_def)
  have u: "uploads_ref (property ([?p1, ?p2] ! 0) ''image'') = Inr None"
    "uploads_ref (property ([?p1, ?p2] ! 0) ''audioFile'') = Inr None"
    by (simp_all add: id1 uploads_ref_def)
  have d: "delete_product posix ?w2 ''coffee'' ''1''
      = (Resp 200 (JObj [''message'' \<mapsto> JStr ''Product deleted successfully'']), ?w3)"
    using delete_product_ok [OF l2 r2 _ h _ u] by (simp add: after_removals_def splice1_def)
  have l3: "loadProducts posix ?w3 ''coffee'' = Inr (JArr [?p2])"
    by (rule loadProducts_saved)
  have h3: "has_id (parseInt ''1'') ([?p2] ! 0)"
    by (simp add: one has_id_def id2 strict_eq_def)
  have g: "get_product posix ?w3 ''coffee'' ''1'' = (Resp 200 ?p2, ?w3)"
    using get_product_first [OF l3 _ _ h3] rec by simp
  have a: "answer (Resp 201 ?p1) = (201, Some (JNum 1))"
    "answer (Resp 201 ?p2) = (201, Some (JNum 1))"
    "answer (Resp 200 (JObj [''message'' \<mapsto> JStr ''Product deleted successfully''])) = (200, None)"
    "answer (Resp 200 ?p2) = (200, Some (JNum 1))"
    by (simp_all add: answer_def status_of_def body_of_def id1 id2) (simp add: property_def)
  show ?thesis
    using c1 c2 d g a by (simp add: serve_def del: fun_upd_apply)
qed

lemma uploads_ref_found:
  "uploads_ref (Some (JStr s)) = Inr a \<Longrightarrow> prefix ''/uploads/'' s \<Longrightarrow> a = Some s"
  by (simp add: uploads_ref_string)

lemma remove_upload_failure:
  assumes "\<forall>c. files v (path_join rt (dirname rt) ref) \<noteq> Some (File c)"
  shows "\<exists>err. remove_upload rt v label ref = console_error v label err"
  using assms by (auto simp: remove_upload_def unlink_def split: option.splits node.splits)

text \<open>
  Claim C6, for an id that one record only carries (the record at position \<open>i\<close>).
  Delete answers 200 with the confirmation; the saved catalog is the old list without
  position \<open>i\<close> and holds no record with that id; Get of the id then answers 404.
  Before the save, the files the \<open>image\<close> and the \<open>audioFile\<close> of the record refer to
  are removed when these fields are strings that begin with \<open>/uploads/\<close> (then \<open>a\<close>,
  \<open>b\<close> are these strings): a removal either deletes the file or, when there is no
  such file to delete, prints the error on the console and changes nothing else; the
  request goes on to the save and the answer 200 in both cases.
\<close>

theorem delete_then_get:
  assumes "loadProducts rt w category = Inr (JArr products)"
    and "list_all is_record products"
    and "i < length products"
    and "has_id (parseInt ident) (products ! i)"
    and "list_all (\<lambda>p. \<not> has_id (parseInt ident) p) (take i products)"
    and "list_all (\<lambda>p. \<not> has_id (parseInt ident) p) (drop (Suc i) products)"
    and "uploads_ref (property (products ! i) ''image'') = Inr a"
    and "uploads_ref (property (products ! i) ''audioFile'') = Inr b"
  shows "(\<exists>w'.
       delete_product rt w category ident =
         (Resp 200 (JObj [''message'' \<mapsto> JStr ''Product deleted successfully'']), w') \<and>
       w' = (after_removals rt w a b)\<lparr>files := (files (after_removals rt w a b))
              (getProductsFilePath rt category \<mapsto> File (Text (JArr (splice1 i products))))\<rparr> \<and>
       loadProducts rt w' category = Inr (JArr (splice1 i products)) \<and>
       list_all (\<lambda>p. \<not> has_id (parseInt ident) p) (splice1 i products) \<and>
       get_product rt w' category ident = (Resp 404 (error_body ''Product not found''), w')) \<and>
     (\<forall>s. property (products ! i) ''image'' = Some (JStr s) \<and> prefix ''/uploads/'' s \<longrightarrow>
        a = Some s) \<and>
     (\<forall>s. property (products ! i) ''audioFile'' = Some (JStr s) \<and> prefix ''/uploads/'' s \<longrightarrow>
        b = Some s) \<and>
     (\<forall>v label ref c. files v (path_join rt (dirname rt) ref) = Some (File c) \<longrightarrow>
        remove_upload rt v label ref =
          v\<lparr>files := (files v)(path_join rt (dirname rt) ref := None)\<rparr>) \<and>
     (\<forall>v label ref. (\<forall>c. files v (path_join rt (dirname rt) ref) \<noteq> Some (File c)) \<longrightarrow>
        (\<exists>err. remove_upload rt v label ref = console_error v label err))"
proof -
  let ?w' = "(after_removals rt w a b)\<lparr>files := (files (after_removals rt w a b))
            (getProductsFilePath rt category \<mapsto> File (Text (JArr (splice1 i products))))\<rparr>"
  have d: "delete_product rt w category ident =
       (Resp 200 (JObj [''message'' \<mapsto> JStr ''Product deleted successfully'']), ?w')"
    by (rule delete_product_ok [OF assms(1-5,7,8)])
  have l: "loadProducts rt ?w' category = Inr (JArr (splice1 i products))"
    by (rule loadProducts_saved)
  have n: "list_all (\<lambda>p. \<not> has_id (parseInt ident) p) (splice1 i products)"
    by (rule splice1_none [OF assms(5,6)])
  have g: "get_product rt ?w' category ident = (Resp 404 (error_body ''Product not found''), ?w')"
    by (rule get_product_none [OF l splice1_records [OF assms(2)] n])
  have main: "\<exists>w'.
       delete_product rt w category ident =
         (Resp 200 (JObj [''message'' \<mapsto> JStr ''Product deleted successfully'']), w') \<and>
       w' = ?w' \<and>
       loadProducts rt w' category = Inr (JArr (splice1 i products)) \<and>
       list_all (\<lambda>p. \<not> has_id (parseInt ident) p) (splice1 i products) \<and>
       get_product rt w' category ident = (Resp 404 (error_body ''Product not found''), w')"
    using d l n g by (intro exI [of _ ?w']) simp
  have img: "\<forall>s. property (products ! i) ''image'' = Some (JStr s) \<and> prefix ''/uploads/'' s \<longrightarrow>
        a = Some s"
    using assms(7) by (auto dest: uploads_ref_found)
  have aud: "\<forall>s. property (products ! i) ''audioFile'' = Some (JStr s) \<and> prefix ''/uploads/'' s \<longrightarrow>
        b = Some s"
    using assms(8) by (auto dest: uploads_ref_found)
  have ok: "\<forall>v label ref c. files v (path_join rt (dirname rt) ref) = Some (File c) \<longrightarrow>
        remove_upload rt v label ref =
          v\<lparr>files := (files v)(path_join rt (dirname rt) ref := None)\<rparr>"
    by (simp add: remove_upload_cases)
  have ko: "\<forall>v label ref. (\<forall>c. files v (path_join rt (dirname rt) ref) \<noteq> Some (File c)) \<longrightarrow>
        (\<exists>err. remove_upload rt v label ref = console_error v label err)"
    by (simp add: remove_upload_failure)
  from main img aud ok ko show ?thesis
    by blast
qed

theorem delete_then_get_witness:
  "\<exists>w'.
     delete_product posix shop ''coffee'' ''2'' =
       (Resp 200 (JObj [''message'' \<mapsto> JStr ''Product deleted successfully'']), w') \<and>
     loadProducts posix w' ''coffee'' = Inr (JArr [product_4]) \<and>
     get_product posix w' ''coffee'' ''2'' = (Resp 404 (error_body ''Product not found''), w') \<and>
     files w' ''/srv/tutu/uploads/images/a.png'' = None \<and>
     console w' = [(''Error deleting audio file:'', SystemError ''ENOENT'')]"
proof -
  have path: "getProductsFilePath posix ''coffee'' = ''/srv/tutu/data/products_coffee.json''"
    by (simp add: getProductsFilePath_def dataDir_def posix_def)
  have l: "loadProducts posix shop ''coffee'' = Inr (JArr [product_4, espresso])"
    by (rule loadProducts_text) (simp add: shop_def path)
  have r: "list_all is_record [product_4, espresso]"
    by (simp add: is_record_def product_4_def espresso_def)
  have two: "parseInt ''2'' = Num 2"
    by (simp add: parseInt_def is_ws_def is_digit_def digit_of_def digits_value_def)
  have i: "1 < length [product_4, espresso]"
    by simp
  have h: "has_id (parseInt ''2'') ([product_4, espresso] ! 1)"
    by (simp add: two has_id_def strict_eq_def property_def espresso_def)
  have e: "list_all (\<lambda>p. \<not> has_id (parseInt ''2'') p) (take 1 [product_4, espresso])"
    by (simp add: two has_id_def strict_eq_def property_def product_4_def)
  have f: "list_all (\<lambda>p. \<not> has_id (parseInt ''2'') p) (drop (Suc 1) [product_4, espresso])"
    by simp
  have a: "uploads_ref (property ([product_4, espresso] ! 1) ''image'')
      = Inr (Some ''/uploads/images/a.png'')"
    by (simp add: property_def espresso_def uploads_ref_def)
  have b: "uploads_ref (property ([product_4, espresso] ! 1) ''audioFile'')
      = Inr (Some ''/uploads/audio/gone.mp3'')"
    by (simp add: property_def espresso_def uploads_ref_def)
  have j: "path_join posix (dirname posix) ''/uploads/images/a.png'' = ''/srv/tutu/uploads/images/a.png''"
    "path_join posix (dirname posix) ''/uploads/audio/gone.mp3'' = ''/srv/tutu/uploads/audio/gone.mp3''"
    by (simp_all add: posix_def)
  have w: "files (after_removals posix shop (Some ''/uploads/images/a.png'')
        (Some ''/uploads/audio/gone.mp3'')) ''/srv/tutu/uploads/images/a.png'' = None"
    "console (after_removals posix shop (Some ''/uploads/images/a.png'')
        (Some ''/uploads/audio/gone.mp3'')) = [(''Error deleting audio file:'', SystemError ''ENOENT'')]"
    by (simp_all add: after_removals_def remove_upload_def unlink_def console_error_def
        shop_def path j)
  from delete_then_get [OF l r i h e f a b]
  obtain w' where d:
    "delete_product posix shop ''coffee'' ''2'' =
       (Resp 200 (JObj [''message'' \<mapsto> JStr ''Product deleted successfully'']), w')"
    "w' = (after_removals posix shop (Some ''/uploads/images/a.png'')
        (Some ''/uploads/audio/gone.mp3''))\<lparr>files :=
          (files (after_removals posix shop (Some ''/uploads/images/a.png'')
             (Some ''/uploads/audio/gone.mp3'')))
          (getProductsFilePath posix ''coffee'' \<mapsto>
             File (Text (JArr (splice1 1 [product_4, espresso]))))\<rparr>"
    "loadProducts posix w' ''coffee'' = Inr (JArr (splice1 1 [product_4, espresso]))"
    "get_product posix w' ''coffee'' ''2'' = (Resp 404 (error_body ''Product not found''), w')"
    by blast
  have "files w' ''/srv/tutu/uploads/images/a.png'' = None"
    using w(1) by (simp add: d(2) path)
  moreover have "console w' = [(''Error deleting audio file:'', SystemError ''ENOENT'')]"
    using w(2) by (simp add: d(2))
  moreover have "splice1 1 [product_4, espresso] = [product_4]"
    by (simp add: splice1_def)
  ultimately show ?thesis
    using d(1,3,4) by (intro exI [of _ w']) simp
qed

section \<open>Unique ids\<close>

text \<open>
  Claim C2. The ids of the products of a catalog reached from an empty one by Create,
  Update and Delete are pairwise distinct. Create lets an \<open>id\<close> of the body replace
  the id it computed: after a Create without an id (it gets 1) and a Create whose
  body holds \<open>"id": 1\<close>, the saved catalog has two records with the id 1.
\<close>

theorem create_duplicates_id:
  "catalog_ids posix
     (snd (serve_all posix ''coffee'' no_files
        [Create latte ''t1'' ''t1'', Create body_id_1 ''t2'' ''t2'']))
     ''coffee'' = [Some (JNum 1), Some (JNum 1)]"
proof -
  let ?path = "getProductsFilePath posix ''coffee''"
  let ?p1 = "new_product (Num 1) latte ''t1'' ''t1''"
  let ?p2 = "new_product (Num 2) body_id_1 ''t2'' ''t2''"
  let ?w1 = "no_files\<lparr>files := (files no_files)(?path \<mapsto> File (Text (JArr [?p1])))\<rparr>"
  let ?w2 = "?w1\<lparr>files := (files ?w1)(?path \<mapsto> File (Text (JArr [?p1, ?p2])))\<rparr>"
  have id1: "property ?p1 ''id'' = Some (JNum 1)"
    by (simp add: new_product_def property_def latte_def own_props_def num_to_json_def map_add_def)
  have id2: "property ?p2 ''id'' = Some (JNum 1)"
    by (simp add: new_product_def property_def body_id_1_def own_props_def map_add_def)
  have rec: "is_record ?p1"
    by (simp add: new_product_def is_record_def)
  have l0: "loadProducts posix no_files ''coffee'' = Inr (JArr [])"
    by (rule loadProducts_absent) (simp add: no_files_def)
  have c1: "post_product posix no_files ''coffee'' latte ''t1'' ''t1'' = (Resp 201 ?p1, ?w1)"
    using post_product_ok [OF l0, where n = "Num 1" and body = latte and ?t1.0 = "''t1''"
        and ?t2.0 = "''t1''"]
    by (simp add: newId_def)
  have l1: "loadProducts posix ?w1 ''coffee'' = Inr (JArr [?p1])"
    by (rule loadProducts_saved)
  have n1: "newId posix [?p1] = Inr (Num 2)"
    using newId_num [of "[?p1]" posix] id1 rec
    by (simp add: num_id_def id_number_def)
  have c2: "post_product posix ?w1 ''coffee'' body_id_1 ''t2'' ''t2'' = (Resp 201 ?p2, ?w2)"
    using post_product_ok [OF l1 n1, of body_id_1 "''t2''" "''t2''"] by simp
  have l2: "loadProducts posix ?w2 ''coffee'' = Inr (JArr [?p1, ?p2])"
    by (rule loadProducts_saved)
  have "snd (serve_all posix ''coffee'' no_files
        [Create latte ''t1'' ''t1'', Create body_id_1 ''t2'' ''t2'']) = ?w2"
    using c1 c2 by (simp add: serve_def del: fun_upd_apply)
  then show ?thesis
    using l2 id1 id2 by (simp add: catalog_ids_def del: fun_upd_apply)
qed


text \<open>Without an \<open>id\<close> in the body of a Create, the ids stay distinct.\<close>

lemma catalog_ok_load:
  assumes "catalog_ok rt category w"
  obtains ps where "loadProducts rt w category = Inr (JArr ps)" and "unique_ids ps"
proof (cases "files w (getProductsFilePath rt category)")
  case None
  then have "loadProducts rt w category = Inr (JArr [])"
    by (rule loadProducts_absent)
  then show ?thesis
    by (rule that) (simp add: unique_ids_def)
next
  case (Some n)
  with assms obtain ps where f: "files w (getProductsFilePath rt category) = Some (File (Text (JArr ps)))"
    and u: "unique_ids ps"
    by (auto simp: catalog_ok_def split: node.splits content.splits json.splits)
  from f have "loadProducts rt w category = Inr (JArr ps)"
    by (rule loadProducts_text)
  then show ?thesis using u by (rule that)
qed

lemma catalog_ok_same_file:
  "catalog_ok rt category w \<Longrightarrow>
   files w' (getProductsFilePath rt category) = files w (getProductsFilePath rt category) \<or>
   files w' (getProductsFilePath rt category) = None \<Longrightarrow>
   catalog_ok rt category w'"
  by (auto simp: catalog_ok_def)

lemma catalog_ok_saved:
  "unique_ids ps \<Longrightarrow>
   catalog_ok rt category
     (w\<lparr>files := (files w)(getProductsFilePath rt category \<mapsto> File (Text (JArr ps)))\<rparr>)"
  by (simp add: catalog_ok_def)

lemma files_console_error: "files (console_error w label e) = files w"
  by (simp add: console_error_def)

lemma files_remove_upload:
  "files (remove_upload rt w label ref) p = files w p \<or> files (remove_upload rt w label ref) p = None"
  by (auto simp: remove_upload_def unlink_def console_error_def split: option.splits node.splits)

lemma files_remove_if_upload:
  "remove_if_upload rt w label v = Inr w' \<Longrightarrow> files w' p = files w p \<or> files w' p = None"
proof -
  assume a: "remove_if_upload rt w label v = Inr w'"
  show ?thesis
  proof (cases "uploads_ref v")
    case (Inl e)
    with a show ?thesis by (simp add: remove_if_upload_def)
  next
    case (Inr r)
    show ?thesis
    proof (cases r)
      case None
      with a Inr show ?thesis by (simp add: remove_if_upload_def)
    next
      case (Some ref)
      with a Inr have "w' = remove_upload rt w label ref"
        by (simp add: remove_if_upload_def)
      then show ?thesis
        using files_remove_upload [of rt w label ref p] by simp
    qed
  qed
qed

lemma remove_if_upload_error:
  "remove_if_upload rt w label v = Inl (e, w') \<Longrightarrow> w' = w"
  by (auto simp: remove_if_upload_def split: sum.splits option.splits)

lemma has_num_id_record: "has_num_id p \<Longrightarrow> is_record p"
  by (simp add: has_num_id_def)

lemma has_num_id_num_id: "has_num_id p \<Longrightarrow> num_id p"
  by (auto simp: has_num_id_def num_id_def split: option.splits json.splits)

lemma unique_ids_records: "unique_ids ps \<Longrightarrow> list_all is_record ps"
  by (simp add: unique_ids_def list_all_iff has_num_id_record)

lemma unique_ids_nums: "unique_ids ps \<Longrightarrow> list_all num_id ps"
  by (simp add: unique_ids_def list_all_iff has_num_id_num_id)

lemma findIndex_by_id_cases:
  assumes "list_all is_record ps"
  obtains (none) "findIndex_by_id ps n = Inr None"
  | (found) i where "i < length ps" and "findIndex_by_id ps n = Inr (Some i)"
      and "has_id n (ps ! i)"
  using assms
proof (induction ps arbitrary: thesis)
  case Nil
  then show ?case by simp
next
  case (Cons p ps)
  show ?case
  proof (cases "has_id n p")
    case True
    with Cons.prems(3) have "findIndex_by_id (p # ps) n = Inr (Some 0)"
      by (simp add: member_record has_id_def)
    with True show ?thesis
      by (intro Cons.prems(2) [of 0]) simp_all
  next
    case False
    from Cons.prems(3) have recs: "list_all is_record ps" by simp
    show ?thesis
    proof (rule Cons.IH [OF _ _ recs])
      assume "findIndex_by_id ps n = Inr None"
      with False Cons.prems(3) have "findIndex_by_id (p # ps) n = Inr None"
        by (simp add: member_record has_id_def)
      then show ?thesis by (rule Cons.prems(1))
    next
      fix i assume "i < length ps" "findIndex_by_id ps n = Inr (Some i)" "has_id n (ps ! i)"
      with False Cons.prems(3) show ?thesis
        by (intro Cons.prems(2) [of "Suc i"]) (simp_all add: member_record has_id_def)
    qed
  qed
qed


lemma has_id_parsed:
  assumes "has_id n p"
  obtains r where "n = Num r" and "property p ''id'' = Some (JNum r)"
  using assms by (auto simp: has_id_def strict_eq_def split: option.splits json.splits jsnum.splits)

lemma has_num_id_property: "has_num_id p \<Longrightarrow> property p ''id'' = Some (JNum (id_number p))"
  by (auto simp: has_num_id_def id_number_def split: option.splits json.splits)

lemma unique_ids_snoc:
  assumes "unique_ids ps"
    and "own_props body ''id'' = None"
    and "r = (if ps = [] then 0 else Max (set (map id_number ps))) + 1"
  shows "unique_ids (ps @ [new_product (Num r) body t1 t2])"
proof -
  have new: "has_num_id (new_product (Num r) body t1 t2)"
    using assms(2)
    by (simp add: has_num_id_def new_product_id num_to_json_def) (simp add: new_product_def is_record_def)
  have "r \<notin> set (map id_number ps)"
  proof
    assume "r \<in> set (map id_number ps)"
    then have "r \<le> Max (set (map id_number ps))" "ps \<noteq> []"
      by (auto intro: Max_ge)
    with assms(3) show False by simp
  qed
  with assms(1,2) new show ?thesis
    by (simp add: unique_ids_def new_product_id_number)
qed

lemma unique_ids_update:
  assumes "unique_ids ps" and "i < length ps" and "has_id n (ps ! i)"
  shows "unique_ids (ps[i := updated_product (ps ! i) body n t])"
proof -
  from assms(3) obtain r where n: "n = Num r" and old: "property (ps ! i) ''id'' = Some (JNum r)"
    by (rule has_id_parsed)
  let ?u = "updated_product (ps ! i) body n t"
  have u: "has_num_id ?u"
    by (simp add: has_num_id_def n updated_product_props) (simp add: updated_product_def is_record_def)
  have "id_number ?u = id_number (ps ! i)"
    by (simp add: id_number_def n updated_product_props old)
  then have "map id_number (ps[i := ?u]) = map id_number ps"
    using assms(2) by (simp add: map_update list_update_same_conv)
  moreover have "list_all has_num_id (ps[i := ?u])"
    using assms(1) u by (auto simp: unique_ids_def list_all_iff dest: set_update_subset_insert [THEN subsetD])
  ultimately show ?thesis
    using assms(1) by (simp add: unique_ids_def)
qed

lemma unique_ids_splice1:
  assumes "unique_ids ps"
  shows "unique_ids (splice1 i ps)"
proof -
  have "list_all has_num_id (splice1 i ps)"
    using assms by (auto simp: unique_ids_def splice1_def list_all_iff dest: in_set_takeD in_set_dropD)
  moreover have "distinct (map id_number (splice1 i ps))"
  proof -
    have d: "distinct (map id_number ps)"
      using assms by (simp add: unique_ids_def)
    have "set (take i (map id_number ps)) \<inter> set (drop (Suc i) (map id_number ps)) = {}"
      by (rule set_take_disj_set_drop_if_distinct [OF d]) simp
    with d have "distinct (take i (map id_number ps) @ drop (Suc i) (map id_number ps))"
      by (simp only: distinct_append distinct_take distinct_drop simp_thms)
    moreover have "map id_number (splice1 i ps)
        = take i (map id_number ps) @ drop (Suc i) (map id_number ps)"
      by (simp add: splice1_def take_map drop_map)
    ultimately show ?thesis by simp
  qed
  ultimately show ?thesis
    by (simp add: unique_ids_def)
qed

lemma create_preserves:
  assumes "catalog_ok rt category w" and "own_props body ''id'' = None"
  shows "catalog_ok rt category (snd (post_product rt w category body t1 t2))"
proof -
  from assms(1) obtain ps where l: "loadProducts rt w category = Inr (JArr ps)" and u: "unique_ids ps"
    by (rule catalog_ok_load)
  show ?thesis
    using post_product_fresh [OF l unique_ids_nums [OF u], of body t1 t2]
      catalog_ok_saved [OF unique_ids_snoc [OF u assms(2) refl], of rt category w t1 t2]
    by simp
qed

lemma update_preserves:
  assumes "catalog_ok rt category w"
  shows "catalog_ok rt category (snd (put_product rt w category ident body t))"
proof -
  from assms obtain ps where l: "loadProducts rt w category = Inr (JArr ps)" and u: "unique_ids ps"
    by (rule catalog_ok_load)
  show ?thesis
  proof (rule findIndex_by_id_cases [OF unique_ids_records [OF u], of "parseInt ident"])
    assume "findIndex_by_id ps (parseInt ident) = Inr None"
    with l assms show ?thesis
      by (simp add: put_product_def update_def as_array_def)
  next
    fix i
    assume found: "i < length ps" "findIndex_by_id ps (parseInt ident) = Inr (Some i)"
      "has_id (parseInt ident) (ps ! i)"
    have "catalog_ok rt category
        (w\<lparr>files := (files w)(getProductsFilePath rt category \<mapsto>
           File (Text (JArr (ps[i := updated_product (ps ! i) body (parseInt ident) t]))))\<rparr>)"
      by (rule catalog_ok_saved [OF unique_ids_update [OF u found(1,3)]])
    with l found(2) saveProducts_loaded [OF l] show ?thesis
      by (simp add: put_product_def update_def as_array_def Let_def)
  qed
qed

lemma delete_preserves:
  assumes "catalog_ok rt category w"
  shows "catalog_ok rt category (snd (delete_product rt w category ident))"
proof -
  let ?path = "getProductsFilePath rt category"
  from assms obtain ps where l: "loadProducts rt w category = Inr (JArr ps)" and u: "unique_ids ps"
    by (rule catalog_ok_load)
  show ?thesis
  proof (rule findIndex_by_id_cases [OF unique_ids_records [OF u], of "parseInt ident"])
    assume "findIndex_by_id ps (parseInt ident) = Inr None"
    with l assms show ?thesis
      by (simp add: delete_product_def delete_def as_array_def)
  next
    fix i
    assume found: "i < length ps" "findIndex_by_id ps (parseInt ident) = Inr (Some i)"
      "has_id (parseInt ident) (ps ! i)"
    let ?product = "own_props (ps ! i)"
    show ?thesis
    proof (cases "remove_if_upload rt w ''Error deleting image file:'' (?product ''image'')")
      case (Inl ew)
      obtain e w' where ew: "ew = (e, w')"
        by (cases ew)
      with Inl have "w' = w"
        by (auto dest: remove_if_upload_error)
      with Inl ew have "snd (delete_product rt w category ident)
          = console_error w ''Error deleting product:'' e"
        using l found(2)
        by (simp add: delete_product_def delete_def as_array_def Let_def)
      with assms show ?thesis
        by (simp add: catalog_ok_def files_console_error)
    next
      case (Inr w1)
      have f1: "files w1 ?path = files w ?path \<or> files w1 ?path = None"
        by (rule files_remove_if_upload [OF Inr])
      then have ok1: "catalog_ok rt category w1"
        by (rule catalog_ok_same_file [OF assms])
      show ?thesis
      proof (cases "remove_if_upload rt w1 ''Error deleting audio file:'' (?product ''audioFile'')")
        case (Inl ew)
        obtain e w' where ew: "ew = (e, w')"
          by (cases ew)
        with Inl have "w' = w1"
          by (auto dest: remove_if_upload_error)
        with Inl ew have "snd (delete_product rt w category ident)
            = console_error w1 ''Error deleting product:'' e"
          using l found(2) Inr
          by (simp add: delete_product_def delete_def as_array_def Let_def)
        with ok1 show ?thesis
          by (simp add: catalog_ok_def files_console_error)
      next
        case w2: (Inr w2)
        have "files w2 ?path = files w1 ?path \<or> files w2 ?path = None"
          by (rule files_remove_if_upload [OF w2])
        with f1 loaded_not_denied [OF l] have nd: "files w2 ?path \<noteq> Some Denied"
          by auto
        then have "saveProducts rt w2 category (splice1 i ps) =
            Inr (w2\<lparr>files := (files w2)(?path \<mapsto> File (Text (JArr (splice1 i ps))))\<rparr>)"
          by (auto simp: saveProducts_def writeFile_def split: option.splits node.splits)
        then have "snd (delete_product rt w category ident)
            = w2\<lparr>files := (files w2)(?path \<mapsto> File (Text (JArr (splice1 i ps))))\<rparr>"
          using l found(2) Inr w2
          by (simp add: delete_product_def delete_def as_array_def Let_def)
        then show ?thesis
          using catalog_ok_saved [OF unique_ids_splice1 [OF u], of rt category w2 i] by simp
      qed
    qed
  qed
qed

lemma read_preserves:
  assumes "catalog_ok rt category w"
  shows "catalog_ok rt category (snd (get_products rt w category))"
    and "catalog_ok rt category (snd (get_product rt w category ident))"
  using assms
  by (auto simp: get_products_def get_product_def catalog_ok_def files_console_error
      split: sum.splits option.splits)

lemma serve_preserves:
  assumes "catalog_ok rt category w" and "id_free req"
  shows "catalog_ok rt category (snd (serve rt category w req))"
  using assms
  by (cases req)
    (simp_all add: serve_def id_free_def read_preserves create_preserves update_preserves
      delete_preserves)

lemma snd_serve_all_Cons:
  "snd (serve_all rt category w (req # reqs))
     = snd (serve_all rt category (snd (serve rt category w req)) reqs)"
  by (simp split: prod.splits)

lemma serve_all_preserves:
  "catalog_ok rt category w \<Longrightarrow> list_all id_free reqs \<Longrightarrow>
   catalog_ok rt category (snd (serve_all rt category w reqs))"
proof (induction reqs arbitrary: w)
  case Nil
  then show ?case by simp
next
  case (Cons req reqs)
  from Cons.prems have "catalog_ok rt category (snd (serve rt category w req))"
    by (intro serve_preserves) simp_all
  then have "catalog_ok rt category (snd (serve_all rt category (snd (serve rt category w req)) reqs))"
    using Cons.prems by (intro Cons.IH) simp_all
  then show ?case
    by (simp only: snd_serve_all_Cons)
qed

lemma ids_stay_distinct:
  assumes "files w (getProductsFilePath rt category) = None"
    and "list_all id_free reqs"
  shows "distinct (catalog_ids rt (snd (serve_all rt category w reqs)) category)"
proof -
  have "catalog_ok rt category w"
    using assms(1) by (simp add: catalog_ok_def)
  then have "catalog_ok rt category (snd (serve_all rt category w reqs))"
    using assms(2) by (rule serve_all_preserves)
  then obtain ps where l: "loadProducts rt (snd (serve_all rt category w reqs)) category = Inr (JArr ps)"
    and u: "unique_ids ps"
    by (rule catalog_ok_load)
  have "map (\<lambda>p. property p ''id'') ps = map (\<lambda>p. Some (JNum (id_number p))) ps"
    using u by (simp add: unique_ids_def list_all_iff has_num_id_property)
  also have "\<dots> = map (\<lambda>r. Some (JNum r)) (map id_number ps)"
    by simp
  finally have "distinct (map (\<lambda>p. property p ''id'') ps)"
    using u by (simp add: unique_ids_def distinct_map inj_on_def del: map_map)
  with l show ?thesis
    by (simp add: catalog_ids_def)
qed

end
